theory Spec2Isabelle
  imports
    Complex_Main
    "HOL-Library.Char_ord"
    "HOL-Library.List_Lexorder"
    "HOL-Library.Product_Lexorder"
begin

section \<open>The Oracle's Elixir cleaning pipeline\<close>

text \<open>
  This theory embeds \<^verbatim>\<open>src/oracles_elixir/oracles_elixir.py\<close>: the stages of
  \<^verbatim>\<open>OraclesElixir.clean_data\<close> and the module-level function \<^verbatim>\<open>get_opponent\<close>.

  A pandas DataFrame is a list of rows. The columns that the pipeline reads are the fields
  of the record \<open>row\<close>; every other column of the export (patch, result, kills, ...) travels
  in the field \<open>others\<close>, which no stage inspects. A missing text or date cell (NaN, NaT) is
  \<open>None\<close>. Python exceptions are values of type \<open>error\<close>, returned on the left of a sum.
\<close>

datatype error = ValueError | IndexError | AttributeError | TypeError


subsection \<open>Rows and frames\<close>

text \<open>
  The type parameter \<open>'d\<close> is the type of a date cell: text in the raw table, a timestamp
  once \<^verbatim>\<open>format_data_types\<close> has run. The type parameter \<open>'f\<close> is the type of a
  float64 cell (NaN is one of its values); the pipeline copies such cells and divides one
  column by 60, and nothing else is assumed of them. The field \<open>egpm\<close> is the column that
  the export calls \<^verbatim>\<open>earned gpm\<close>; \<^verbatim>\<open>subset_data\<close> relabels it \<^verbatim>\<open>egpm\<close>
  before it selects columns.
\<close>

record ('d, 'f, 'm) row =
  date :: 'd
  gameid :: "string option"
  side :: "string option"
  position :: "string option"
  league :: "string option"
  playername :: "string option"
  playerid :: "string option"
  teamname :: "string option"
  teamid :: "string option"
  egpm :: 'f
  gamelength :: 'f
  others :: 'm

text \<open>
  The columns that \<^verbatim>\<open>enrich_opponent_metrics\<close> adds. \<open>opponentname\<close> and
  \<open>opponentid\<close> are assigned at player granularity only; at team granularity they are
  not columns of the result (their labels are absent) and the fields hold \<open>None\<close>.
\<close>

record ('d, 'f, 'm) opp_row = "('d, 'f, 'm) row" +
  opponentteam :: "string option"
  opponentteamid :: "string option"
  opponent_egpm :: 'f
  opponentname :: "string option"
  opponentid :: "string option"

text \<open>
  From \<^verbatim>\<open>subset_data\<close> on, the column labels of the table are part of the value:
  a frame is the list of its labels together with its rows.
\<close>

record 'r frame =
  labels :: "string list"
  rows :: "'r list"


subsection \<open>Strings\<close>

text \<open>
  A \<open>char\<close> is a code point below 256. \<^verbatim>\<open>str.lower\<close> maps the upper-case letters
  among them (A to Z, and U+00C0 to U+00DE without the multiplication sign U+00D7) 32 places
  up; \<^verbatim>\<open>str.strip\<close> removes the code points that \<^verbatim>\<open>str.isspace\<close> accepts: U+0009
  to U+000D, U+001C to U+0020, U+0085 and U+00A0.
\<close>

definition lower_char :: "char \<Rightarrow> char" where
  "lower_char c =
     (let n = (of_char c :: nat)
      in if (65 \<le> n \<and> n \<le> 90) \<or> (192 \<le> n \<and> n \<le> 222 \<and> n \<noteq> 215)
         then char_of (n + 32) else c)"

definition lower :: "string \<Rightarrow> string" where
  "lower s = map lower_char s"

definition is_space :: "char \<Rightarrow> bool" where
  "is_space c =
     (let n = (of_char c :: nat)
      in (9 \<le> n \<and> n \<le> 13) \<or> (28 \<le> n \<and> n \<le> 32) \<or> n = 133 \<or> n = 160)"

definition strip :: "string \<Rightarrow> string" where
  "strip s = rev (dropWhile is_space (rev (dropWhile is_space s)))"

definition fillna :: "'a option \<Rightarrow> 'a option \<Rightarrow> 'a option" where
  "fillna x y = (case x of None \<Rightarrow> y | Some v \<Rightarrow> Some v)"


subsection \<open>\<^verbatim>\<open>get_opponent\<close>\<close>

definition gap_dict :: "string \<rightharpoonup> nat" where
  "gap_dict = [''player'' \<mapsto> 5, ''team'' \<mapsto> 1]"

text \<open>
  \<^verbatim>\<open>column[k]\<close> on a Python list: an index below zero counts from the end, and an
  index outside \<open>[-len, len)\<close> raises \<^verbatim>\<open>IndexError\<close>.
\<close>

definition list_item :: "'a list \<Rightarrow> int \<Rightarrow> error + 'a" where
  "list_item xs k =
     (if 0 \<le> k \<and> k < int (length xs) then Inr (xs ! nat k)
      else if - int (length xs) \<le> k \<and> k < 0 then Inr (xs ! nat (int (length xs) + k))
      else Inl IndexError)"

text \<open>
  The \<^verbatim>\<open>for i, obj in enumerate(column)\<close> loop. The third argument is what is left to
  enumerate, \<open>i\<close> the running index, \<open>flag\<close> and \<open>opponent\<close> the two loop variables.
  The reset of \<open>flag\<close> at the end of the body is applied to the incremented flag.
\<close>

fun opponent_loop ::
  "nat \<Rightarrow> 'a list \<Rightarrow> 'a list \<Rightarrow> nat \<Rightarrow> nat \<Rightarrow> 'a list \<Rightarrow> error + 'a list" where
  "opponent_loop gap column [] i flag opponent = Inr opponent"
| "opponent_loop gap column (obj # todo) i flag opponent =
     (if flag < gap then
        (case list_item column (int i + int gap) of
           Inl e \<Rightarrow> Inl e
         | Inr v \<Rightarrow> opponent_loop gap column todo (i + 1)
                     (if flag + 1 \<ge> gap * 2 then 0 else flag + 1) (opponent @ [v]))
      else if gap \<le> flag \<and> flag < gap * 2 then
        (case list_item column (int i - int gap) of
           Inl e \<Rightarrow> Inl e
         | Inr v \<Rightarrow> opponent_loop gap column todo (i + 1)
                     (if flag + 1 \<ge> gap * 2 then 0 else flag + 1) (opponent @ [v]))
      else Inl ValueError)"

text \<open>
  \<open>entity\<close> is \<open>None\<close> when the caller passes Python's \<^verbatim>\<open>None\<close>; \<^verbatim>\<open>gap_dict.get\<close>
  then finds nothing and the function raises \<^verbatim>\<open>ValueError\<close>.
\<close>

definition get_opponent :: "'a list \<Rightarrow> string option \<Rightarrow> error + 'a list" where
  "get_opponent column entity =
     (case (case entity of None \<Rightarrow> None | Some e \<Rightarrow> gap_dict e) of
        None \<Rightarrow> Inl ValueError
      | Some gap \<Rightarrow> opponent_loop gap column column 0 0 [])"


subsection \<open>The stages of \<^verbatim>\<open>clean_data\<close>\<close>

text \<open>
  \<^verbatim>\<open>format_data_types\<close>, statement by statement.

  Line 78, \<^verbatim>\<open>pd.to_datetime\<close> on the date column, is the parameter \<open>to_datetime\<close>: it
  maps the whole column to the column of timestamps (a missing date to the missing
  timestamp), or to \<open>None\<close> where pandas raises, which it does with \<^verbatim>\<open>ValueError\<close>
  or a subclass of it. The result has one timestamp for each row.

  Line 82, \<^verbatim>\<open>x.str.strip()\<close> on the columns gameid, playerid and teamid: the
  \<^verbatim>\<open>.str\<close> accessor exists on a column of dtype object only. A column that has rows
  and holds no text at all is read as float64, and the accessor raises
  \<^verbatim>\<open>AttributeError\<close>.

  Line 96, the float64 division of \<^verbatim>\<open>gamelength\<close> by 60, is the parameter \<open>div60\<close>.
\<close>

definition str_accessor :: "string option list \<Rightarrow> bool" where
  "str_accessor col = (col = [] \<or> list_ex (\<lambda>cell. cell \<noteq> None) col)"

definition replace_values :: "string option \<Rightarrow> string option" where
  "replace_values cell =
     (if cell = Some [] \<or> cell = Some ''nan'' \<or> cell = Some ''null'' then None else cell)"

definition format_row ::
  "('f \<Rightarrow> 'f) \<Rightarrow> (string option, 'f, 'm) row \<Rightarrow> int option \<Rightarrow> (int option, 'f, 'm) row" where
  "format_row div60 r d =
     \<lparr> date = d,
       gameid = replace_values (map_option strip (gameid r)),
       side = side r,
       position = replace_values (position r),
       league = league r,
       playername = playername r,
       playerid = replace_values (map_option strip (playerid r)),
       teamname = teamname r,
       teamid = replace_values (map_option strip (teamid r)),
       egpm = egpm r,
       gamelength = div60 (gamelength r),
       others = others r \<rparr>"

definition format_data_types ::
  "(string option list \<Rightarrow> int option list option) \<Rightarrow> ('f \<Rightarrow> 'f)
     \<Rightarrow> (string option, 'f, 'm) row list \<Rightarrow> error + (int option, 'f, 'm) row list" where
  "format_data_types to_datetime div60 oe_data =
     (case to_datetime (map date oe_data) of
        None \<Rightarrow> Inl ValueError
      | Some dates \<Rightarrow>
          if \<not> str_accessor (map gameid oe_data) \<or> \<not> str_accessor (map playerid oe_data)
             \<or> \<not> str_accessor (map teamid oe_data)
          then Inl AttributeError
          else Inr (map (\<lambda>(r, d). format_row div60 r d) (zip oe_data dates)))"

definition remove_null_games :: "('d, 'f, 'm, 'z) row_scheme list \<Rightarrow> ('d, 'f, 'm, 'z) row_scheme list" where
  "remove_null_games oe_data = filter (\<lambda>r. gameid r \<noteq> None) oe_data"

definition drop_unknown_entities ::
  "('d, 'f, 'm, 'z) row_scheme list \<Rightarrow> ('d, 'f, 'm, 'z) row_scheme list" where
  "drop_unknown_entities oe_data =
     filter (\<lambda>r. \<not> playername r \<in> set [Some ''unknown player'']
               \<and> \<not> teamname r \<in> set [Some ''unknown team'']) oe_data"

text \<open>
  \<^verbatim>\<open>sort_data\<close>. \<^verbatim>\<open>DataFrame.sort_values\<close> on several columns orders the rows
  lexicographically by those columns with missing cells last in each column, and keeps
  rows with equal keys in their order (pandas sorts several keys by a lexsort); strings are
  compared by code point. The key functions give this order through the lexicographic order
  on pairs, and \<open>sort_key\<close> is the sort. For any other \<open>split_on\<close> the Python
  function falls off its end and returns \<^verbatim>\<open>None\<close>: the result is \<open>None\<close>.
\<close>

definition na_last :: "'a \<Rightarrow> 'a option \<Rightarrow> bool \<times> 'a" where
  "na_last d cell = (case cell of None \<Rightarrow> (True, d) | Some v \<Rightarrow> (False, v))"

definition team_key ::
  "(int option, 'f, 'm, 'z) row_scheme \<Rightarrow> (bool \<times> string) \<times> (bool \<times> int) \<times> (bool \<times> string) \<times> (bool \<times> string)" where
  "team_key r =
     (na_last [] (league r), na_last 0 (date r), na_last [] (gameid r), na_last [] (side r))"

definition player_key ::
  "(int option, 'f, 'm, 'z) row_scheme \<Rightarrow>
     (bool \<times> string) \<times> (bool \<times> int) \<times> (bool \<times> string) \<times> (bool \<times> string) \<times> (bool \<times> string)" where
  "player_key r =
     (na_last [] (league r), na_last 0 (date r), na_last [] (gameid r), na_last [] (side r),
      na_last [] (position r))"

definition sort_data ::
  "(int option, 'f, 'm, 'z) row_scheme list \<Rightarrow> string option \<Rightarrow> (int option, 'f, 'm, 'z) row_scheme list option" where
  "sort_data oe_data split_on =
     (if split_on = Some ''player'' then Some (sort_key player_key oe_data)
      else if split_on = Some ''team'' then Some (sort_key team_key oe_data)
      else None)"

text \<open>
  \<^verbatim>\<open>fill_null_team_ids\<close> receives what \<^verbatim>\<open>sort_data\<close> returned, which may be
  \<^verbatim>\<open>None\<close>; subscripting \<^verbatim>\<open>None\<close> raises \<^verbatim>\<open>TypeError\<close>.
\<close>

definition fill_null_team_ids ::
  "('d, 'f, 'm, 'z) row_scheme list option \<Rightarrow> string option \<Rightarrow> error + ('d, 'f, 'm, 'z) row_scheme list option" where
  "fill_null_team_ids oe_data split_on =
     (if split_on = Some ''player'' then
        (case oe_data of
           None \<Rightarrow> Inl TypeError
         | Some rs \<Rightarrow> Inr (Some (map (\<lambda>r. r\<lparr>teamid := fillna (teamid r) (teamname r)\<rparr>) rs)))
      else Inr oe_data)"

definition columns :: "(string \<times> string list) list" where
  "columns =
     [(''team'',
        [''date'', ''gameid'', ''side'', ''league'', ''patch'', ''teamname'', ''teamid'',
         ''result'', ''kills'', ''deaths'', ''assists'', ''egpm'', ''gamelength'', ''ckpm'',
         ''team kpm'', ''firstblood'', ''dragons'', ''barons'', ''towers'', ''goldat15'',
         ''xpat15'', ''csat15'', ''golddiffat15'', ''xpdiffat15'', ''csdiffat15'']),
      (''player'',
        [''date'', ''gameid'', ''side'', ''position'', ''league'', ''patch'', ''playername'',
         ''playerid'', ''teamname'', ''teamid'', ''result'', ''kills'', ''deaths'', ''assists'',
         ''total cs'', ''egpm'', ''earnedgoldshare'', ''damagetochampions'', ''dpm'',
         ''damageshare'', ''damagetakenperminute'', ''wardsplaced'', ''wpm'', ''wardskilled'',
         ''wcpm'', ''controlwardsbought'', ''visionscore'', ''vspm'', ''totalgold'',
         ''monsterkills'', ''minionkills'', ''gamelength'', ''ckpm'', ''cspm'', ''team kpm'',
         ''goldat15'', ''xpat15'', ''csat15'', ''killsat15'', ''assistsat15'', ''deathsat15'',
         ''opp_killsat15'', ''opp_assistsat15'', ''opp_deathsat15'', ''golddiffat15'',
         ''xpdiffat15'', ''csdiffat15''])]"

text \<open>
  \<^verbatim>\<open>subset_data\<close>. \<^verbatim>\<open>split_on in columns\<close> is the lookup in the dictionary; inside
  the branch \<open>split_on\<close> is therefore a string. A comparison of a missing position with
  \<^verbatim>\<open>"team"\<close> is false for \<^verbatim>\<open>==\<close> and true for \<^verbatim>\<open>!=\<close>. Calling
  \<^verbatim>\<open>rename\<close> on \<^verbatim>\<open>None\<close> raises \<^verbatim>\<open>AttributeError\<close>. The result has exactly the
  selected labels.
\<close>

definition subset_data ::
  "('d, 'f, 'm, 'z) row_scheme list option \<Rightarrow> string option \<Rightarrow> error + ('d, 'f, 'm, 'z) row_scheme frame" where
  "subset_data oe_data split_on =
     (case (case split_on of None \<Rightarrow> None | Some s \<Rightarrow> map_option (Pair s) (map_of columns s)) of
        Some (s, cols) \<Rightarrow>
          (case oe_data of
             None \<Rightarrow> Inl AttributeError
           | Some rs \<Rightarrow>
               Inr \<lparr> labels = cols,
                     rows = (if lower s = ''team''
                             then filter (\<lambda>r. position r = Some ''team'') rs
                             else filter (\<lambda>r. position r \<noteq> Some ''team'') rs) \<rparr>)
      | None \<Rightarrow> Inl ValueError)"

text \<open>
  \<^verbatim>\<open>remove_inconsistent_games\<close>. \<^verbatim>\<open>value_counts\<close> counts the rows of every
  game id that is present (missing ids are not counted), so a row without a game id is
  never in an inconsistent game. \<^verbatim>\<open>split_on.lower()\<close> on \<^verbatim>\<open>None\<close> raises
  \<^verbatim>\<open>AttributeError\<close>.
\<close>

definition value_counts :: "'a option list \<Rightarrow> ('a \<times> nat) list" where
  "value_counts col =
     map (\<lambda>g. (g, count_list col (Some g)))
       (remdups (concat (map (\<lambda>c. case c of None \<Rightarrow> [] | Some g \<Rightarrow> [g]) col)))"

definition remove_inconsistent_games ::
  "('d, 'f, 'm, 'z) row_scheme frame \<Rightarrow> string option \<Rightarrow> error + ('d, 'f, 'm, 'z) row_scheme frame" where
  "remove_inconsistent_games oe_data split_on =
     (let counts = value_counts (map gameid (rows oe_data)) in
      case split_on of
        None \<Rightarrow> Inl AttributeError
      | Some s \<Rightarrow>
          (let inconsistent_games =
                 map fst (filter (\<lambda>(g, c). if lower s = ''team'' then c \<noteq> 2 else c \<noteq> 10) counts)
           in Inr (oe_data\<lparr>rows :=
                     filter (\<lambda>r. \<not> gameid r \<in> Some ` set inconsistent_games) (rows oe_data)\<rparr>)))"

text \<open>
  \<^verbatim>\<open>enrich_opponent_metrics\<close>. The dictionary \<^verbatim>\<open>metrics\<close> is built from the table as
  it is passed in, entry by entry in the order written; \<^verbatim>\<open>assign\<close> then overwrites
  the columns whose label exists and appends the others in that order.
\<close>

definition assign_labels :: "string list \<Rightarrow> string list \<Rightarrow> string list" where
  "assign_labels ls keys = fold (\<lambda>k acc. if k \<in> set acc then acc else acc @ [k]) keys ls"

definition enrich_opponent_metrics ::
  "('d, 'f, 'm) row frame \<Rightarrow> string option \<Rightarrow> error + ('d, 'f, 'm) opp_row frame" where
  "enrich_opponent_metrics oe_data split_on =
     (let rs = rows oe_data;
          teamid' = map (\<lambda>r. fillna (teamid r) (teamname r)) rs
      in
      case get_opponent (map teamname rs) split_on of Inl e \<Rightarrow> Inl e | Inr opponentteam' \<Rightarrow>
      case get_opponent (map teamid rs) split_on of Inl e \<Rightarrow> Inl e | Inr opponentteamid' \<Rightarrow>
      case get_opponent (map egpm rs) split_on of Inl e \<Rightarrow> Inl e | Inr opponent_egpm' \<Rightarrow>
      if split_on = Some ''player'' then
        (let playerid' = map (\<lambda>r. fillna (playerid r) (playername r)) rs in
         case get_opponent (map playername rs) split_on of Inl e \<Rightarrow> Inl e | Inr opponentname' \<Rightarrow>
         case get_opponent (map playerid rs) split_on of Inl e \<Rightarrow> Inl e | Inr opponentid' \<Rightarrow>
           Inr \<lparr> labels = assign_labels (labels oe_data)
                    [''teamid'', ''opponentteam'', ''opponentteamid'', ''opponent_egpm'',
                     ''playerid'', ''opponentname'', ''opponentid''],
                 rows = map (\<lambda>i. row.extend ((rs ! i)\<lparr>teamid := teamid' ! i, playerid := playerid' ! i\<rparr>)
                             (opp_row.fields (opponentteam' ! i) (opponentteamid' ! i)
                                (opponent_egpm' ! i) (opponentname' ! i) (opponentid' ! i)))
                          [0..<length rs] \<rparr>)
      else
        Inr \<lparr> labels = assign_labels (labels oe_data)
                 [''teamid'', ''opponentteam'', ''opponentteamid'', ''opponent_egpm''],
              rows = map (\<lambda>i. row.extend ((rs ! i)\<lparr>teamid := teamid' ! i\<rparr>)
                          (opp_row.fields (opponentteam' ! i) (opponentteamid' ! i)
                             (opponent_egpm' ! i) None None))
                       [0..<length rs] \<rparr>)"

text \<open>
  \<^verbatim>\<open>clean_data\<close>: the eight calls in the order of the source. The parameters
  \<^verbatim>\<open>team_replacements\<close> and \<^verbatim>\<open>player_replacements\<close> are not used by the body and
  are left out; \<open>to_datetime\<close> and \<open>div60\<close> are the two library operations that
  \<^verbatim>\<open>format_data_types\<close> takes as parameters.
\<close>

definition clean_data ::
  "(string option list \<Rightarrow> int option list option) \<Rightarrow> ('f \<Rightarrow> 'f)
     \<Rightarrow> (string option, 'f, 'm) row list \<Rightarrow> string option
     \<Rightarrow> error + (int option, 'f, 'm) opp_row frame" where
  "clean_data to_datetime div60 oe_data split_on =
     (case format_data_types to_datetime div60 oe_data of Inl e \<Rightarrow> Inl e | Inr d1 \<Rightarrow>
      let d2 = remove_null_games d1;
          d3 = drop_unknown_entities d2;
          d4 = sort_data d3 split_on
      in
      case fill_null_team_ids d4 split_on of Inl e \<Rightarrow> Inl e | Inr d5 \<Rightarrow>
      case subset_data d5 split_on of Inl e \<Rightarrow> Inl e | Inr d6 \<Rightarrow>
      case remove_inconsistent_games d6 split_on of Inl e \<Rightarrow> Inl e | Inr d7 \<Rightarrow>
      enrich_opponent_metrics d7 split_on)"

text \<open>
  The order of the last two stages as the specification words it: the Opponent Enricher
  runs on what \<^verbatim>\<open>subset_data\<close> returns and the Consistency Filter is a pass over the
  enriched table. This is not the order of the source; the definition exists to be compared
  with \<open>clean_data\<close>.
\<close>

definition clean_data_enrich_then_filter ::
  "(string option list \<Rightarrow> int option list option) \<Rightarrow> ('f \<Rightarrow> 'f)
     \<Rightarrow> (string option, 'f, 'm) row list \<Rightarrow> string option
     \<Rightarrow> error + (int option, 'f, 'm) opp_row frame" where
  "clean_data_enrich_then_filter to_datetime div60 oe_data split_on =
     (case format_data_types to_datetime div60 oe_data of Inl e \<Rightarrow> Inl e | Inr d1 \<Rightarrow>
      let d2 = remove_null_games d1;
          d3 = drop_unknown_entities d2;
          d4 = sort_data d3 split_on
      in
      case fill_null_team_ids d4 split_on of Inl e \<Rightarrow> Inl e | Inr d5 \<Rightarrow>
      case subset_data d5 split_on of Inl e \<Rightarrow> Inl e | Inr d6 \<Rightarrow>
      case enrich_opponent_metrics d6 split_on of Inl e \<Rightarrow> Inl e | Inr d7 \<Rightarrow>
      remove_inconsistent_games d7 split_on)"

text \<open>
  The Team Schema as the glossary of the specification words it, each field under the label
  that the source gives it: date, game id, side, competition (\<^verbatim>\<open>league\<close>), patch, entity
  name and id (\<^verbatim>\<open>teamname\<close>, \<^verbatim>\<open>teamid\<close>), result, kills, deaths, assists, egpm,
  duration in minutes (\<^verbatim>\<open>gamelength\<close>), ckpm, team kpm, firstblood, dragons, barons,
  towers, the differential metrics at 15 minutes, and the opponent fields. The glossary's
  Player Schema is this list and further fields. This is not a definition of the source; it
  exists to be compared with \<open>columns\<close>.
\<close>

definition glossary_team_schema :: "string list" where
  "glossary_team_schema =
     [''date'', ''gameid'', ''side'', ''league'', ''patch'', ''teamname'', ''teamid'',
      ''result'', ''kills'', ''deaths'', ''assists'', ''egpm'', ''gamelength'', ''ckpm'',
      ''team kpm'', ''firstblood'', ''dragons'', ''barons'', ''towers'',
      ''golddiffat15'', ''xpdiffat15'', ''csdiffat15'',
      ''opponentteam'', ''opponentteamid'', ''opponent_egpm'']"


section \<open>Properties of \<^verbatim>\<open>get_opponent\<close>\<close>

lemma list_item_nat:
  "list_item xs (int k) = (if k < length xs then Inr (xs ! k) else Inl IndexError)"
  by (simp add: list_item_def)

lemma list_item_back:
  "g \<le> i \<Longrightarrow> i < length xs \<Longrightarrow> list_item xs (int i - int g) = Inr (xs ! (i - g))"
proof -
  assume a: "g \<le> i" "i < length xs"
  then have "int i - int g = int (i - g)" by simp
  moreover have "i - g < length xs" using a by simp
  ultimately show ?thesis by (simp only: list_item_nat if_True)
qed

lemma flag_step:
  assumes "0 < gap" "flag = i mod (2 * gap)"
  shows "(if flag + 1 \<ge> gap * 2 then 0 else flag + 1) = Suc i mod (2 * gap)"
proof -
  have "i mod (2 * gap) < 2 * gap" using assms(1) by simp
  then show ?thesis unfolding assms(2) by (simp add: mod_Suc)
qed

text \<open>
  The loop invariant: \<open>flag\<close> is the running index modulo \<open>2 * gap\<close>. From any point of the
  enumeration the loop either appends the values read at the fixed offsets or stops at the
  first forward read that leaves the list.
\<close>

lemma opponent_loop_closed:
  assumes "0 < gap"
  shows "flag = i mod (2 * gap) \<Longrightarrow> todo = drop i column \<Longrightarrow>
    opponent_loop gap column todo i flag acc =
      (if \<forall>j. i \<le> j \<and> j < length column \<and> j mod (2 * gap) < gap \<longrightarrow> j + gap < length column
       then Inr (acc @ map (\<lambda>j. if j mod (2 * gap) < gap then column ! (j + gap)
                                 else column ! (j - gap)) [i..<length column])
       else Inl IndexError)"
proof (induction todo arbitrary: i flag acc)
  case Nil
  then have "length column \<le> i" by simp
  then show ?case by simp
next
  case (Cons obj todo)
  from Cons.prems(2) have lt: "i < length column"
    by (cases "i < length column") simp_all
  have todo: "todo = drop (Suc i) column"
    using Cons.prems(2) lt by (simp add: Cons_nth_drop_Suc[symmetric])
  let ?flag' = "if flag + 1 \<ge> gap * 2 then 0 else flag + 1"
  have fl: "?flag' = Suc i mod (2 * gap)"
    using flag_step[OF assms Cons.prems(1)] .
  have bound: "flag < 2 * gap" using assms Cons.prems(1) by simp
  have upt: "[i..<length column] = i # [Suc i..<length column]"
    using lt by (simp add: upt_conv_Cons)
  have all_split:
    "(\<forall>j. i \<le> j \<and> j < length column \<and> j mod (2 * gap) < gap \<longrightarrow> j + gap < length column)
      = ((i mod (2 * gap) < gap \<longrightarrow> i + gap < length column) \<and>
         (\<forall>j. Suc i \<le> j \<and> j < length column \<and> j mod (2 * gap) < gap \<longrightarrow> j + gap < length column))"
    (is "?L = (?H \<and> ?R)")
  proof
    assume ?L then show "?H \<and> ?R" using lt by auto
  next
    assume hr: "?H \<and> ?R"
    show ?L
    proof (intro allI impI)
      fix j assume j: "i \<le> j \<and> j < length column \<and> j mod (2 * gap) < gap"
      show "j + gap < length column"
      proof (cases "j = i")
        case True then show ?thesis using hr j by simp
      next
        case False then have "Suc i \<le> j" using j by simp
        then show ?thesis using hr j by blast
      qed
    qed
  qed
  show ?case
  proof (cases "flag < gap")
    case True
    then have m: "i mod (2 * gap) < gap" using Cons.prems(1) by simp
    show ?thesis
    proof (cases "i + gap < length column")
      case inside: True
      have li: "list_item column (int i + int gap) = Inr (column ! (i + gap))"
        using inside list_item_nat[of column "i + gap"] by simp
      have "opponent_loop gap column (obj # todo) i flag acc =
            opponent_loop gap column todo (Suc i) ?flag' (acc @ [column ! (i + gap)])"
        using True li by simp
      also have "\<dots> =
        (if \<forall>j. Suc i \<le> j \<and> j < length column \<and> j mod (2 * gap) < gap \<longrightarrow> j + gap < length column
         then Inr ((acc @ [column ! (i + gap)]) @
                   map (\<lambda>j. if j mod (2 * gap) < gap then column ! (j + gap)
                            else column ! (j - gap)) [Suc i..<length column])
         else Inl IndexError)"
        by (rule Cons.IH[OF fl todo])
      finally show ?thesis
        unfolding all_split upt using m inside by simp
    next
      case outside: False
      have li: "list_item column (int i + int gap) = Inl IndexError"
        using outside list_item_nat[of column "i + gap"] by simp
      have "opponent_loop gap column (obj # todo) i flag acc = Inl IndexError"
        using True li by simp
      then show ?thesis unfolding all_split using m outside by simp
    qed
  next
    case False
    then have m: "\<not> i mod (2 * gap) < gap" and ge: "gap \<le> flag"
      using Cons.prems(1) by simp_all
    have "i mod (2 * gap) \<le> i" by (rule mod_less_eq_dividend)
    with ge Cons.prems(1) have "gap \<le> i" by linarith
    then have li: "list_item column (int i - int gap) = Inr (column ! (i - gap))"
      using lt by (rule list_item_back)
    have "opponent_loop gap column (obj # todo) i flag acc =
            opponent_loop gap column todo (Suc i) ?flag' (acc @ [column ! (i - gap)])"
      using False ge bound li by simp
    also have "\<dots> =
      (if \<forall>j. Suc i \<le> j \<and> j < length column \<and> j mod (2 * gap) < gap \<longrightarrow> j + gap < length column
       then Inr ((acc @ [column ! (i - gap)]) @
                 map (\<lambda>j. if j mod (2 * gap) < gap then column ! (j + gap)
                          else column ! (j - gap)) [Suc i..<length column])
       else Inl IndexError)"
      by (rule Cons.IH[OF fl todo])
    finally show ?thesis
      unfolding all_split upt using m by simp
  qed
qed

lemma gap_dict_team: "gap_dict ''team'' = Some 1"
  by (simp add: gap_dict_def)

lemma gap_dict_player: "gap_dict ''player'' = Some 5"
  by (simp add: gap_dict_def)

lemma get_opponent_closed:
  assumes "entity = ''team'' \<and> gap = 1 \<or> entity = ''player'' \<and> gap = 5"
  shows "get_opponent column (Some entity) =
      (if \<forall>i<length column. i mod (2 * gap) < gap \<longrightarrow> i + gap < length column
       then Inr (map (\<lambda>i. if i mod (2 * gap) < gap then column ! (i + gap)
                          else column ! (i - gap)) [0..<length column])
       else Inl IndexError)"
proof -
  have g: "gap_dict entity = Some gap" and pos: "0 < gap"
    using assms gap_dict_team gap_dict_player by auto
  have "get_opponent column (Some entity) = opponent_loop gap column column 0 0 []"
    by (simp add: get_opponent_def g)
  also have "\<dots> =
      (if \<forall>j. 0 \<le> j \<and> j < length column \<and> j mod (2 * gap) < gap \<longrightarrow> j + gap < length column
       then Inr ([] @ map (\<lambda>j. if j mod (2 * gap) < gap then column ! (j + gap)
                                 else column ! (j - gap)) [0..<length column])
       else Inl IndexError)"
    by (rule opponent_loop_closed[OF pos]) simp_all
  finally show ?thesis by simp
qed

text \<open>A forward read leaves the list exactly when the length is not a multiple of the cycle.\<close>

lemma forward_reads_inside:
  fixes gap n :: nat
  assumes "0 < gap"
  shows "(\<forall>i<n. i mod (2 * gap) < gap \<longrightarrow> i + gap < n) = (n mod (2 * gap) = 0)"
proof
  assume all: "\<forall>i<n. i mod (2 * gap) < gap \<longrightarrow> i + gap < n"
  show "n mod (2 * gap) = 0"
  proof (rule ccontr)
    assume nz: "n mod (2 * gap) \<noteq> 0"
    define r where "r = n mod (2 * gap)"
    define b where "b = n - r"
    have r: "0 < r" "r < 2 * gap" using nz assms by (simp_all add: r_def)
    have rn: "r \<le> n" unfolding r_def by (rule mod_less_eq_dividend)
    have bm: "b mod (2 * gap) = 0"
      unfolding b_def r_def by (simp add: minus_mod_eq_mult_div)
    have n: "n = b + r" using rn by (simp add: b_def)
    show False
    proof (cases "r \<le> gap")
      case True
      have "b < n" using n r by simp
      moreover have "b mod (2 * gap) < gap" using bm assms by simp
      ultimately have "b + gap < n" using all by blast
      then show False using n True by simp
    next
      case False
      define i where "i = b + (r - gap)"
      have lt: "r - gap < 2 * gap" using r by simp
      have "i mod (2 * gap) = (r - gap) mod (2 * gap)"
        unfolding i_def using bm by (simp add: mod_add_left_eq[symmetric])
      then have im: "i mod (2 * gap) = r - gap" using lt by simp
      have "i < n" using n False assms by (simp add: i_def)
      moreover have "i mod (2 * gap) < gap" using im r by simp
      ultimately have "i + gap < n" using all by blast
      then show False using n False by (simp add: i_def)
    qed
  qed
next
  assume z: "n mod (2 * gap) = 0"
  show "\<forall>i<n. i mod (2 * gap) < gap \<longrightarrow> i + gap < n"
  proof (intro allI impI)
    fix i assume i: "i < n" and m: "i mod (2 * gap) < gap"
    obtain q where q: "n = 2 * gap * q" using z by (auto simp: mod_eq_0_iff_dvd)
    have id: "i = 2 * gap * (i div (2 * gap)) + i mod (2 * gap)" by simp
    have "i div (2 * gap) < q"
      using i q assms by (simp add: div_less_iff_less_mult mult.commute)
    then have "Suc (i div (2 * gap)) \<le> q" by simp
    then have "2 * gap * Suc (i div (2 * gap)) \<le> 2 * gap * q" by (rule mult_le_mono2)
    then have "2 * gap * (i div (2 * gap)) + 2 * gap \<le> n" using q by simp
    moreover have "i + gap < 2 * gap * (i div (2 * gap)) + 2 * gap"
      using id m by linarith
    ultimately show "i + gap < n" by linarith
  qed
qed

text \<open>
  Claim C2. For \<open>entity\<close> \<^verbatim>\<open>"team"\<close> (gap 1) or \<^verbatim>\<open>"player"\<close> (gap 5), the
  list that \<^verbatim>\<open>get_opponent\<close> returns has, at every index \<open>i\<close>, the input element at
  offset \<open>+gap\<close> when \<open>i mod (2 * gap)\<close> lies in \<open>[0, gap)\<close> and the element at offset
  \<open>-gap\<close> otherwise. The cycle position is the index modulo \<open>2 * gap\<close> over the whole
  list: nothing but the index enters it. The list is returned whenever every forward read
  stays inside the column; otherwise the call raises \<^verbatim>\<open>IndexError\<close>.
\<close>

theorem get_opponent_cycle:
  assumes "entity = ''team'' \<and> gap = 1 \<or> entity = ''player'' \<and> gap = 5"
  shows "get_opponent column (Some entity) =
      (if \<forall>i<length column. i mod (2 * gap) < gap \<longrightarrow> i + gap < length column
       then Inr (map (\<lambda>i. if i mod (2 * gap) < gap then column ! (i + gap)
                          else column ! (i - gap)) [0..<length column])
       else Inl IndexError)"
  using assms by (rule get_opponent_closed)

theorem get_opponent_cycle_witness:
  "(''team'' = ''team'' \<and> (1::nat) = 1 \<or> ''team'' = ''player'' \<and> (1::nat) = 5) \<and>
   get_opponent [10, 20, 30, 40 :: nat] (Some ''team'') = Inr [20, 10, 40, 30]"
proof -
  have h: "''team'' = ''team'' \<and> (1::nat) = 1 \<or> ''team'' = ''player'' \<and> (1::nat) = 5"
    by simp
  have inside: "\<forall>i<length [10, 20, 30, 40 :: nat]. i mod (2 * 1) < 1 \<longrightarrow> i + 1 < length [10, 20, 30, 40 :: nat]"
    using forward_reads_inside[of 1 "length [10, 20, 30, 40 :: nat]"] by simp
  have idx: "[0..<length [10, 20, 30, 40 :: nat]] = [0, 1, 2, 3]" by (simp add: upt_rec)
  have "get_opponent [10, 20, 30, 40 :: nat] (Some ''team'') =
          Inr (map (\<lambda>i. if i mod (2 * 1) < 1 then [10, 20, 30, 40 :: nat] ! (i + 1)
                          else [10, 20, 30, 40 :: nat] ! (i - 1)) [0..<length [10, 20, 30, 40 :: nat]])"
    by (subst get_opponent_cycle[OF h, of "[10, 20, 30, 40 :: nat]"]) (rule if_P[OF inside])
  then have "get_opponent [10, 20, 30, 40 :: nat] (Some ''team'') = Inr [20, 10, 40, 30]"
    unfolding idx by simp
  with h show ?thesis by simp
qed

text \<open>
  Claim C4. Opponent symmetry at team granularity: on a column of even length
  \<^verbatim>\<open>get_opponent\<close> returns a list of the same length in which, for every even index
  \<open>i\<close>, entry \<open>i\<close> is the column's entry \<open>i + 1\<close> and entry \<open>i + 1\<close> is the column's
  entry \<open>i\<close>.
\<close>

theorem team_opponent_symmetry:
  assumes "even (length column)"
  shows "\<exists>opponent. get_opponent column (Some ''team'') = Inr opponent \<and>
           length opponent = length column \<and>
           (\<forall>i. even i \<and> i < length column \<longrightarrow>
                  opponent ! i = column ! (i + 1) \<and> opponent ! (i + 1) = column ! i)"
proof -
  let ?f = "\<lambda>i. if i mod (2 * 1) < (1::nat) then column ! (i + 1) else column ! (i - 1)"
  let ?opp = "map ?f [0..<length column]"
  have "length column mod (2 * 1) = 0" using assms by simp
  then have inside: "\<forall>i<length column. i mod (2 * 1) < (1::nat) \<longrightarrow> i + 1 < length column"
    using forward_reads_inside[of 1 "length column"] by simp
  have ret: "get_opponent column (Some ''team'') = Inr ?opp"
    using get_opponent_closed[of "''team''" 1 column] inside by simp
  have "\<forall>i. even i \<and> i < length column \<longrightarrow>
            ?opp ! i = column ! (i + 1) \<and> ?opp ! (i + 1) = column ! i"
  proof (intro allI impI)
    fix i assume i: "even i \<and> i < length column"
    then have im: "i mod 2 = 0" by simp
    have next_in: "i + 1 < length column" using inside i im by simp
    have a: "?opp ! i = column ! (i + 1)" using i im by simp
    have "(i + 1) mod 2 = 1" using i by (simp add: mod_Suc)
    then have b: "?opp ! (i + 1) = column ! i"
      using next_in nth_map_upt[of "i + 1" "length column" 0 ?f] by simp
    from a b show "?opp ! i = column ! (i + 1) \<and> ?opp ! (i + 1) = column ! i" by simp
  qed
  with ret show ?thesis by (intro exI[of _ ?opp]) simp
qed

theorem team_opponent_symmetry_witness:
  "even (length [''Alpha'', ''Beta'']) \<and>
   get_opponent [''Alpha'', ''Beta''] (Some ''team'') = Inr [''Beta'', ''Alpha'']"
proof -
  have h: "even (length [''Alpha'', ''Beta''])" by simp
  from team_opponent_symmetry[OF h] obtain opponent where
    r: "get_opponent [''Alpha'', ''Beta''] (Some ''team'') = Inr opponent" and
    l: "length opponent = length [''Alpha'', ''Beta'']" and
    s: "\<forall>i. even i \<and> i < length [''Alpha'', ''Beta''] \<longrightarrow>
          opponent ! i = [''Alpha'', ''Beta''] ! (i + 1) \<and> opponent ! (i + 1) = [''Alpha'', ''Beta''] ! i"
    by blast
  from s have "opponent ! 0 = ''Beta'' \<and> opponent ! (0 + 1) = ''Alpha''"
    by (metis One_nat_def add.left_neutral even_zero length_Cons list.size(3) nth_Cons_0 nth_Cons_Suc zero_less_Suc)
  moreover from l have "length opponent = 2" by simp
  ultimately have "opponent = [''Beta'', ''Alpha'']"
    by (cases opponent; cases "tl opponent") auto
  with r h show ?thesis by simp
qed

text \<open>
  Claim C5. \<^verbatim>\<open>get_opponent\<close> raises \<^verbatim>\<open>IndexError\<close> exactly when some index in the
  first half of a cycle has no element \<open>gap\<close> places further on, which is the case exactly
  when the length of the column is not a multiple of \<open>2 * gap\<close>; in every other case it
  returns a list.
\<close>

theorem get_opponent_index_error:
  assumes "entity = ''team'' \<and> gap = 1 \<or> entity = ''player'' \<and> gap = 5"
  shows "(get_opponent column (Some entity) = Inl IndexError) =
           (\<exists>i<length column. i mod (2 * gap) < gap \<and> length column \<le> i + gap)
         \<and> (get_opponent column (Some entity) = Inl IndexError) =
           (length column mod (2 * gap) \<noteq> 0)
         \<and> (get_opponent column (Some entity) \<noteq> Inl IndexError \<longrightarrow>
              (\<exists>opponent. get_opponent column (Some entity) = Inr opponent))"
proof -
  have pos: "0 < gap" using assms by auto
  let ?inside = "\<forall>i<length column. i mod (2 * gap) < gap \<longrightarrow> i + gap < length column"
  have c: "get_opponent column (Some entity) =
      (if ?inside
       then Inr (map (\<lambda>i. if i mod (2 * gap) < gap then column ! (i + gap)
                          else column ! (i - gap)) [0..<length column])
       else Inl IndexError)"
    using assms by (rule get_opponent_closed)
  have e1: "(get_opponent column (Some entity) = Inl IndexError) = (\<not> ?inside)"
    by (subst c) simp
  have e2: "(\<not> ?inside) = (\<exists>i<length column. i mod (2 * gap) < gap \<and> length column \<le> i + gap)"
    by (auto simp: not_less)
  have e3: "(\<not> ?inside) = (length column mod (2 * gap) \<noteq> 0)"
    using forward_reads_inside[OF pos, of "length column"] by simp
  have e4: "get_opponent column (Some entity) \<noteq> Inl IndexError \<longrightarrow>
              (\<exists>opponent. get_opponent column (Some entity) = Inr opponent)"
    by (subst (1 2) c) simp
  from e1 e2 e3 e4 show ?thesis by simp
qed

theorem get_opponent_index_error_witness:
  "(''player'' = ''team'' \<and> (5::nat) = 1 \<or> ''player'' = ''player'' \<and> (5::nat) = 5) \<and>
   get_opponent [1, 2, 3, 4, 5, 6, 7 :: nat] (Some ''player'') = Inl IndexError"
proof -
  have h: "''player'' = ''team'' \<and> (5::nat) = 1 \<or> ''player'' = ''player'' \<and> (5::nat) = 5"
    by simp
  have "length [1, 2, 3, 4, 5, 6, 7 :: nat] mod (2 * 5) \<noteq> 0" by simp
  then have "get_opponent [1, 2, 3, 4, 5, 6, 7 :: nat] (Some ''player'') = Inl IndexError"
    using get_opponent_index_error[OF h, of "[1, 2, 3, 4, 5, 6, 7 :: nat]"] by blast
  with h show ?thesis by simp
qed

section \<open>Properties of the stages\<close>

subsection \<open>\<^verbatim>\<open>remove_inconsistent_games\<close>\<close>

lemma set_present_ids:
  "set (concat (map (\<lambda>c. case c of None \<Rightarrow> [] | Some g \<Rightarrow> [g]) col)) = {g. Some g \<in> set col}"
  by (induction col) (auto split: option.splits)

lemma set_value_counts:
  "set (value_counts col) = (\<lambda>g. (g, count_list col (Some g))) ` {g. Some g \<in> set col}"
  unfolding value_counts_def by (simp only: set_map set_remdups set_present_ids)

lemma inconsistent_ids:
  "g \<in> set (map fst (filter (\<lambda>(g, c). Q c) (value_counts col)))
     \<longleftrightarrow> Some g \<in> set col \<and> Q (count_list col (Some g))"
proof
  assume "g \<in> set (map fst (filter (\<lambda>(g, c). Q c) (value_counts col)))"
  then obtain c where "(g, c) \<in> set (value_counts col)" "Q c" by auto
  then show "Some g \<in> set col \<and> Q (count_list col (Some g))"
    unfolding set_value_counts by auto
next
  assume a: "Some g \<in> set col \<and> Q (count_list col (Some g))"
  then have "(g, count_list col (Some g)) \<in> set (value_counts col)"
    unfolding set_value_counts by blast
  then have "(g, count_list col (Some g)) \<in> set (filter (\<lambda>(g, c). Q c) (value_counts col))"
    using a by simp
  then have "fst (g, count_list col (Some g)) \<in> fst ` set (filter (\<lambda>(g, c). Q c) (value_counts col))"
    by (rule imageI)
  then show "g \<in> set (map fst (filter (\<lambda>(g, c). Q c) (value_counts col)))" by simp
qed

lemma count_list_pos: "x \<in> set xs \<Longrightarrow> 0 < count_list xs x"
  by (induction xs) auto

lemma count_list_filter_key:
  "count_list (map f (filter (\<lambda>r. P (f r)) xs)) k = (if P k then count_list (map f xs) k else 0)"
  by (induction xs) auto

lemma remove_inconsistent_games_rows:
  "remove_inconsistent_games oe_data (Some s) =
     Inr (oe_data\<lparr>rows := filter (\<lambda>r. gameid r = None \<or>
                      count_list (map gameid (rows oe_data)) (gameid r) = (if lower s = ''team'' then 2 else 10))
                    (rows oe_data)\<rparr>)"
proof -
  let ?col = "map gameid (rows oe_data)"
  let ?Q = "\<lambda>c::nat. if lower s = ''team'' then c \<noteq> 2 else c \<noteq> 10"
  let ?inc = "map fst (filter (\<lambda>(g, c). ?Q c) (value_counts ?col))"
  have keep: "\<And>r. r \<in> set (rows oe_data) \<Longrightarrow>
      (\<not> gameid r \<in> Some ` set ?inc) =
      (gameid r = None \<or> count_list ?col (gameid r) = (if lower s = ''team'' then 2 else 10))"
  proof -
    fix r assume r: "r \<in> set (rows oe_data)"
    show "(\<not> gameid r \<in> Some ` set ?inc) =
      (gameid r = None \<or> count_list ?col (gameid r) = (if lower s = ''team'' then 2 else 10))"
    proof (cases "gameid r")
      case None
      then show ?thesis by auto
    next
      case (Some g)
      have "Some g \<in> set ?col" using r Some by (metis image_eqI list.set_map)
      then have "(g \<in> set ?inc) = ?Q (count_list ?col (Some g))"
        using inconsistent_ids[of g ?Q ?col] by simp
      moreover have "(gameid r \<in> Some ` set ?inc) = (g \<in> set ?inc)"
        unfolding Some by (rule inj_image_mem_iff) simp
      ultimately show ?thesis unfolding Some by (cases "lower s = ''team''") simp_all
    qed
  qed
  have "filter (\<lambda>r. \<not> gameid r \<in> Some ` set ?inc) (rows oe_data) =
        filter (\<lambda>r. gameid r = None \<or>
                  count_list ?col (gameid r) = (if lower s = ''team'' then 2 else 10)) (rows oe_data)"
    by (rule filter_cong[OF refl]) (rule keep)
  then show ?thesis by (simp add: remove_inconsistent_games_def Let_def)
qed

text \<open>
  Claim C3, as the code has it. \<^verbatim>\<open>remove_inconsistent_games\<close> compares the lower-cased
  \<open>split_on\<close> with \<^verbatim>\<open>"team"\<close>: the expected count is 2 for every spelling of
  \<^verbatim>\<open>team\<close> and 10 for every other string. The call returns the rows whose game id is
  missing or occurs exactly that often, in their order; every game id present in the result
  occurs there in exactly the expected number of rows, and no row of a game with the expected
  count is removed.
\<close>

theorem remove_inconsistent_games_group_size:
  "\<exists>out. remove_inconsistent_games oe_data (Some s) = Inr out \<and>
     labels out = labels oe_data \<and>
     rows out = filter (\<lambda>r. gameid r = None \<or>
                   count_list (map gameid (rows oe_data)) (gameid r) = (if lower s = ''team'' then 2 else 10))
                 (rows oe_data) \<and>
     (\<forall>g. Some g \<in> set (map gameid (rows out)) \<longrightarrow>
        count_list (map gameid (rows out)) (Some g) = (if lower s = ''team'' then 2 else 10)) \<and>
     (\<forall>r. r \<in> set (rows oe_data) \<and>
        count_list (map gameid (rows oe_data)) (gameid r) = (if lower s = ''team'' then 2 else 10)
        \<longrightarrow> r \<in> set (rows out))"
proof -
  let ?n = "if lower s = ''team'' then 2 else 10 :: nat"
  let ?col = "map gameid (rows oe_data)"
  let ?P = "\<lambda>k. k = None \<or> count_list ?col k = ?n"
  let ?out = "oe_data\<lparr>rows := filter (\<lambda>r. ?P (gameid r)) (rows oe_data)\<rparr>"
  have ret: "remove_inconsistent_games oe_data (Some s) = Inr ?out"
    by (rule remove_inconsistent_games_rows)
  have cnt: "\<And>k. count_list (map gameid (rows ?out)) k = (if ?P k then count_list ?col k else 0)"
    using count_list_filter_key[of gameid ?P "rows oe_data"] by simp
  have size: "\<forall>g. Some g \<in> set (map gameid (rows ?out)) \<longrightarrow>
                 count_list (map gameid (rows ?out)) (Some g) = ?n"
  proof (intro allI impI)
    fix g assume "Some g \<in> set (map gameid (rows ?out))"
    then have "0 < count_list (map gameid (rows ?out)) (Some g)" by (rule count_list_pos)
    then have "?P (Some g)" unfolding cnt by (simp split: if_splits)
    then show "count_list (map gameid (rows ?out)) (Some g) = ?n" unfolding cnt by simp
  qed
  have kept: "\<forall>r. r \<in> set (rows oe_data) \<and> count_list ?col (gameid r) = ?n \<longrightarrow> r \<in> set (rows ?out)"
    by simp
  show ?thesis
    by (intro exI[of _ ?out] conjI ret size kept) simp_all
qed

theorem remove_inconsistent_games_group_size_witness:
  "remove_inconsistent_games
     \<lparr>labels = [''gameid''],
      rows = [\<lparr>date = (), gameid = Some ''g1'', side = Some ''Blue'', position = Some ''team'',
                league = None, playername = None, playerid = None, teamname = Some ''A'',
                teamid = None, egpm = (), gamelength = (), others = ()\<rparr>,
              \<lparr>date = (), gameid = Some ''g2'', side = Some ''Blue'', position = Some ''team'',
                league = None, playername = None, playerid = None, teamname = Some ''C'',
                teamid = None, egpm = (), gamelength = (), others = ()\<rparr>,
              \<lparr>date = (), gameid = Some ''g1'', side = Some ''Red'', position = Some ''team'',
                league = None, playername = None, playerid = None, teamname = Some ''B'',
                teamid = None, egpm = (), gamelength = (), others = ()\<rparr>]\<rparr>
     (Some ''team'') =
   Inr \<lparr>labels = [''gameid''],
      rows = [\<lparr>date = (), gameid = Some ''g1'', side = Some ''Blue'', position = Some ''team'',
                league = None, playername = None, playerid = None, teamname = Some ''A'',
                teamid = None, egpm = (), gamelength = (), others = ()\<rparr>,
              \<lparr>date = (), gameid = Some ''g1'', side = Some ''Red'', position = Some ''team'',
                league = None, playername = None, playerid = None, teamname = Some ''B'',
                teamid = None, egpm = (), gamelength = (), others = ()\<rparr>]\<rparr>"
proof -
  have l: "lower ''team'' = ''team''" by code_simp
  show ?thesis
    using remove_inconsistent_games_group_size[of
      "\<lparr>labels = [''gameid''],
      rows = [\<lparr>date = (), gameid = Some ''g1'', side = Some ''Blue'', position = Some ''team'',
                league = None, playername = None, playerid = None, teamname = Some ''A'',
                teamid = None, egpm = (), gamelength = (), others = ()\<rparr>,
              \<lparr>date = (), gameid = Some ''g2'', side = Some ''Blue'', position = Some ''team'',
                league = None, playername = None, playerid = None, teamname = Some ''C'',
                teamid = None, egpm = (), gamelength = (), others = ()\<rparr>,
              \<lparr>date = (), gameid = Some ''g1'', side = Some ''Red'', position = Some ''team'',
                league = None, playername = None, playerid = None, teamname = Some ''B'',
                teamid = None, egpm = (), gamelength = (), others = ()\<rparr>]\<rparr>" "''team''"]
    by (auto simp: l)
qed

text \<open>
  The claim as written (2 rows when \<open>split_on\<close> is \<^verbatim>\<open>"team"\<close>, 10 rows otherwise) fails
  for \<^verbatim>\<open>"TEAM"\<close>: a game of two rows survives.
\<close>

theorem remove_inconsistent_games_counterexample:
  "remove_inconsistent_games
     \<lparr>labels = [''gameid''],
      rows = [\<lparr>date = (), gameid = Some ''g1'', side = Some ''Blue'', position = Some ''team'',
                league = None, playername = None, playerid = None, teamname = Some ''A'',
                teamid = None, egpm = (), gamelength = (), others = ()\<rparr>,
              \<lparr>date = (), gameid = Some ''g1'', side = Some ''Red'', position = Some ''team'',
                league = None, playername = None, playerid = None, teamname = Some ''B'',
                teamid = None, egpm = (), gamelength = (), others = ()\<rparr>]\<rparr>
     (Some ''TEAM'') =
   Inr \<lparr>labels = [''gameid''],
      rows = [\<lparr>date = (), gameid = Some ''g1'', side = Some ''Blue'', position = Some ''team'',
                league = None, playername = None, playerid = None, teamname = Some ''A'',
                teamid = None, egpm = (), gamelength = (), others = ()\<rparr>,
              \<lparr>date = (), gameid = Some ''g1'', side = Some ''Red'', position = Some ''team'',
                league = None, playername = None, playerid = None, teamname = Some ''B'',
                teamid = None, egpm = (), gamelength = (), others = ()\<rparr>]\<rparr>
   \<and> ''TEAM'' \<noteq> ''team''
   \<and> count_list [Some ''g1'', Some ''g1''] (Some ''g1'') \<noteq> (10::nat)"
proof -
  have l: "lower ''TEAM'' = ''team''" by code_simp
  show ?thesis
    by (simp add: remove_inconsistent_games_rows l)
qed

subsection \<open>\<^verbatim>\<open>fill_null_team_ids\<close>\<close>

text \<open>
  Claim C6, as the code has it. \<^verbatim>\<open>fill_null_team_ids\<close> acts at player granularity
  only, and only on \<open>teamid\<close>: there a missing \<open>teamid\<close> is replaced by the row's
  \<open>teamname\<close> (so it is present afterwards whenever the team name is) and \<open>playerid\<close>
  is left as it was. For every other \<open>split_on\<close> the table is returned unchanged.
\<close>

theorem fill_null_team_ids_player_only:
  "(split_on \<noteq> Some ''player'' \<longrightarrow> fill_null_team_ids oe_data split_on = Inr oe_data) \<and>
   (\<exists>out. fill_null_team_ids (Some rs) (Some ''player'') = Inr (Some out) \<and>
      length out = length rs \<and>
      (\<forall>i<length rs.
         teamid (out ! i) = (case teamid (rs ! i) of None \<Rightarrow> teamname (rs ! i) | Some t \<Rightarrow> Some t) \<and>
         (teamname (rs ! i) \<noteq> None \<longrightarrow> teamid (out ! i) \<noteq> None) \<and>
         playerid (out ! i) = playerid (rs ! i) \<and>
         out ! i = (rs ! i)\<lparr>teamid := teamid (out ! i)\<rparr>))"
proof -
  let ?out = "map (\<lambda>r. r\<lparr>teamid := fillna (teamid r) (teamname r)\<rparr>) rs"
  have a: "split_on \<noteq> Some ''player'' \<longrightarrow> fill_null_team_ids oe_data split_on = Inr oe_data"
    by (simp add: fill_null_team_ids_def)
  have b: "fill_null_team_ids (Some rs) (Some ''player'') = Inr (Some ?out)"
    by (simp add: fill_null_team_ids_def)
  have c: "\<forall>i<length rs.
         teamid (?out ! i) = (case teamid (rs ! i) of None \<Rightarrow> teamname (rs ! i) | Some t \<Rightarrow> Some t) \<and>
         (teamname (rs ! i) \<noteq> None \<longrightarrow> teamid (?out ! i) \<noteq> None) \<and>
         playerid (?out ! i) = playerid (rs ! i) \<and>
         ?out ! i = (rs ! i)\<lparr>teamid := teamid (?out ! i)\<rparr>"
    by (auto simp: fillna_def split: option.splits)
  have d: "length ?out = length rs" by simp
  from a b c d show ?thesis by blast
qed

theorem fill_null_team_ids_player_only_witness:
  "fill_null_team_ids
     (Some [\<lparr>date = (), gameid = Some ''g1'', side = Some ''Blue'', position = Some ''top'',
              league = None, playername = Some ''P'', playerid = None, teamname = Some ''A'',
              teamid = None, egpm = (), gamelength = (), others = ()\<rparr>])
     (Some ''player'') =
   Inr (Some [\<lparr>date = (), gameid = Some ''g1'', side = Some ''Blue'', position = Some ''top'',
              league = None, playername = Some ''P'', playerid = None, teamname = Some ''A'',
              teamid = Some ''A'', egpm = (), gamelength = (), others = ()\<rparr>])"
proof -
  let ?r = "\<lparr>date = (), gameid = Some ''g1'', side = Some ''Blue'', position = Some ''top'',
              league = None, playername = Some ''P'', playerid = None, teamname = Some ''A'',
              teamid = None, egpm = (), gamelength = (), others = ()\<rparr>"
  from fill_null_team_ids_player_only[of "Some ''player''" None "[?r]"]
  obtain out where
    r: "fill_null_team_ids (Some [?r]) (Some ''player'') = Inr (Some out)" and
    l: "length out = length [?r]" and
    s: "\<forall>i<length [?r].
         teamid (out ! i) = (case teamid ([?r] ! i) of None \<Rightarrow> teamname ([?r] ! i) | Some t \<Rightarrow> Some t) \<and>
         (teamname ([?r] ! i) \<noteq> None \<longrightarrow> teamid (out ! i) \<noteq> None) \<and>
         playerid (out ! i) = playerid ([?r] ! i) \<and>
         out ! i = ([?r] ! i)\<lparr>teamid := teamid (out ! i)\<rparr>"
    by blast
  from l obtain x where x: "out = [x]" by (cases out) auto
  from s x have "teamid x = Some ''A''" and "x = ?r\<lparr>teamid := teamid x\<rparr>" by auto
  then have "x = ?r\<lparr>teamid := Some ''A''\<rparr>" by simp
  with r x show ?thesis by simp
qed

text \<open>
  The claim as written fails at both granularities: at team granularity a missing
  \<open>teamid\<close> stays missing although the team name is present, and at player granularity
  a missing \<open>playerid\<close> stays missing although the player name is present.
\<close>

theorem fill_null_team_ids_counterexample:
  "fill_null_team_ids
     (Some [\<lparr>date = (), gameid = Some ''g1'', side = Some ''Blue'', position = Some ''team'',
              league = None, playername = None, playerid = None, teamname = Some ''A'',
              teamid = None, egpm = (), gamelength = (), others = ()\<rparr>])
     (Some ''team'') =
   Inr (Some [\<lparr>date = (), gameid = Some ''g1'', side = Some ''Blue'', position = Some ''team'',
              league = None, playername = None, playerid = None, teamname = Some ''A'',
              teamid = None, egpm = (), gamelength = (), others = ()\<rparr>])
   \<and>
   fill_null_team_ids
     (Some [\<lparr>date = (), gameid = Some ''g1'', side = Some ''Blue'', position = Some ''top'',
              league = None, playername = Some ''P'', playerid = None, teamname = Some ''A'',
              teamid = Some ''idA'', egpm = (), gamelength = (), others = ()\<rparr>])
     (Some ''player'') =
   Inr (Some [\<lparr>date = (), gameid = Some ''g1'', side = Some ''Blue'', position = Some ''top'',
              league = None, playername = Some ''P'', playerid = None, teamname = Some ''A'',
              teamid = Some ''idA'', egpm = (), gamelength = (), others = ()\<rparr>])"
  by (simp add: fill_null_team_ids_def fillna_def)


subsection \<open>\<^verbatim>\<open>sort_data\<close>\<close>




subsection \<open>\<^verbatim>\<open>clean_data\<close>: the granularity check\<close>

lemma subset_data_unrecognized:
  "split_on \<noteq> Some ''team'' \<Longrightarrow> split_on \<noteq> Some ''player'' \<Longrightarrow>
   subset_data oe_data split_on = Inl ValueError"
  by (cases split_on) (simp_all add: subset_data_def columns_def)

lemma format_data_types_Inl:
  assumes "format_data_types to_datetime div60 oe_data = Inl e"
  shows "e = ValueError \<or> e = AttributeError"
  using assms by (simp add: format_data_types_def split: option.splits if_splits)

lemma clean_data_unrecognized:
  assumes "split_on \<noteq> Some ''team''" and "split_on \<noteq> Some ''player''"
  shows "clean_data to_datetime div60 oe_data split_on =
     (if to_datetime (map date oe_data) \<noteq> None \<and>
         (\<not> str_accessor (map gameid oe_data) \<or> \<not> str_accessor (map playerid oe_data)
          \<or> \<not> str_accessor (map teamid oe_data))
      then Inl AttributeError else Inl ValueError)"
proof (cases "to_datetime (map date oe_data)")
  case None
  then have "format_data_types to_datetime div60 oe_data = Inl ValueError"
    by (simp add: format_data_types_def)
  then show ?thesis using None by (simp add: clean_data_def)
next
  case (Some dates)
  show ?thesis
  proof (cases "\<not> str_accessor (map gameid oe_data) \<or> \<not> str_accessor (map playerid oe_data)
          \<or> \<not> str_accessor (map teamid oe_data)")
    case True
    then have "format_data_types to_datetime div60 oe_data = Inl AttributeError"
      using Some by (simp add: format_data_types_def)
    then show ?thesis using Some True by (simp add: clean_data_def)
  next
    case False
    then obtain d1 where f: "format_data_types to_datetime div60 oe_data = Inr d1"
      using Some by (simp add: format_data_types_def)
    have s: "sort_data (drop_unknown_entities (remove_null_games d1)) split_on = None"
      using assms by (simp add: sort_data_def)
    have fi: "\<And>t. fill_null_team_ids t split_on = Inr t"
      using assms by (simp add: fill_null_team_ids_def)
    have u: "\<And>t. subset_data t split_on = Inl ValueError"
      using assms by (rule subset_data_unrecognized)
    have "clean_data to_datetime div60 oe_data split_on = Inl ValueError"
      by (simp add: clean_data_def Let_def f s fi u)
    then show ?thesis using False by simp
  qed
qed





subsection \<open>\<^verbatim>\<open>enrich_opponent_metrics\<close> and the columns of the result\<close>

lemma get_opponent_Inr:
  assumes "get_opponent column entity = Inr opp"
  shows "\<exists>s gap. entity = Some s \<and> (s = ''team'' \<and> gap = 1 \<or> s = ''player'' \<and> gap = 5) \<and>
           length column mod (2 * gap) = 0 \<and>
           opp = map (\<lambda>i. if i mod (2 * gap) < gap then column ! (i + gap)
                           else column ! (i - gap)) [0..<length column]"
proof -
  obtain s where s: "entity = Some s"
  proof (cases entity)
    case None
    then have "get_opponent column entity = Inl ValueError" by (simp add: get_opponent_def)
    with assms show ?thesis by simp
  next
    case (Some s) then show ?thesis by (rule that)
  qed
  obtain gap where g: "gap_dict s = Some gap"
  proof (cases "gap_dict s")
    case None
    then have "get_opponent column entity = Inl ValueError" by (simp add: get_opponent_def s)
    with assms show ?thesis by simp
  next
    case (Some gap) then show ?thesis by (rule that)
  qed
  from g have sg: "s = ''team'' \<and> gap = 1 \<or> s = ''player'' \<and> gap = 5"
    by (auto simp: gap_dict_def split: if_splits)
  then have pos: "0 < gap" by auto
  let ?inside = "\<forall>i<length column. i mod (2 * gap) < gap \<longrightarrow> i + gap < length column"
  have c: "get_opponent column (Some s) =
      (if ?inside
       then Inr (map (\<lambda>i. if i mod (2 * gap) < gap then column ! (i + gap)
                          else column ! (i - gap)) [0..<length column])
       else Inl IndexError)"
    using sg by (rule get_opponent_closed)
  have ins: ?inside
  proof (rule ccontr)
    assume "\<not> ?inside"
    then have "get_opponent column (Some s) = Inl IndexError" by (subst c) simp
    with assms s show False by simp
  qed
  then have m: "length column mod (2 * gap) = 0"
    using forward_reads_inside[OF pos, of "length column"] by simp
  have "get_opponent column (Some s) = Inr (map (\<lambda>i. if i mod (2 * gap) < gap then column ! (i + gap)
                          else column ! (i - gap)) [0..<length column])"
    by (subst c) (rule if_P[OF ins])
  with assms s have o: "opp = map (\<lambda>i. if i mod (2 * gap) < gap then column ! (i + gap)
                          else column ! (i - gap)) [0..<length column]" by simp
  show ?thesis
    by (rule exI[of _ s], rule exI[of _ gap]) (intro conjI s sg m o)
qed

lemma get_opponent_length:
  assumes "get_opponent column entity = Inr opp"
  shows "length opp = length column"
proof -
  from get_opponent_Inr[OF assms] obtain gap :: nat where
    "opp = map (\<lambda>i. if i mod (2 * gap) < gap then column ! (i + gap)
                           else column ! (i - gap)) [0..<length column]" by blast
  then show ?thesis by simp
qed

lemma get_opponent_returns:
  assumes "entity = ''team'' \<and> gap = 1 \<or> entity = ''player'' \<and> gap = 5"
    and "length column mod (2 * gap) = 0"
  shows "\<exists>opp. get_opponent column (Some entity) = Inr opp"
proof -
  have pos: "0 < gap" using assms(1) by auto
  have "\<forall>i<length column. i mod (2 * gap) < gap \<longrightarrow> i + gap < length column"
    using forward_reads_inside[OF pos, of "length column"] assms(2) by simp
  then show ?thesis
    by (subst get_opponent_closed[OF assms(1)]) simp
qed

lemma map_nth_upt: "length xs = n \<Longrightarrow> map (\<lambda>i. xs ! i) [0..<n] = xs"
  by (auto simp: map_nth)



lemma enrich_opponent_metrics_Inr:
  assumes "enrich_opponent_metrics oe_data split_on = Inr out"
  shows "labels out =
           assign_labels (labels oe_data)
             (if split_on = Some ''player''
              then [''teamid'', ''opponentteam'', ''opponentteamid'', ''opponent_egpm'',
                    ''playerid'', ''opponentname'', ''opponentid'']
              else [''teamid'', ''opponentteam'', ''opponentteamid'', ''opponent_egpm''])"
    and "get_opponent (map teamid (rows oe_data)) split_on = Inr (map opponentteamid (rows out))"
    and "get_opponent (map teamname (rows oe_data)) split_on = Inr (map opponentteam (rows out))"
    and "map teamid (rows out) = map (\<lambda>r. fillna (teamid r) (teamname r)) (rows oe_data)"
    and "length (rows out) = length (rows oe_data)"
    and "split_on = Some ''player'' \<longrightarrow>
           get_opponent (map playerid (rows oe_data)) split_on = Inr (map opponentid (rows out)) \<and>
           map playerid (rows out) = map (\<lambda>r. fillna (playerid r) (playername r)) (rows oe_data)"
proof -
  let ?rs = "rows oe_data"
  obtain a where a: "get_opponent (map teamname ?rs) split_on = Inr a"
  proof (cases "get_opponent (map teamname ?rs) split_on")
    case (Inl e)
    then have "enrich_opponent_metrics oe_data split_on = Inl e"
      by (simp add: enrich_opponent_metrics_def Let_def)
    with assms show ?thesis by simp
  next
    case (Inr a) then show ?thesis using that by simp
  qed
  obtain b where b: "get_opponent (map teamid ?rs) split_on = Inr b"
  proof (cases "get_opponent (map teamid ?rs) split_on")
    case (Inl e)
    then have "enrich_opponent_metrics oe_data split_on = Inl e"
      by (simp add: enrich_opponent_metrics_def Let_def a)
    with assms show ?thesis by simp
  next
    case (Inr b) then show ?thesis using that by simp
  qed
  obtain c where c: "get_opponent (map egpm ?rs) split_on = Inr c"
  proof (cases "get_opponent (map egpm ?rs) split_on")
    case (Inl e)
    then have "enrich_opponent_metrics oe_data split_on = Inl e"
      by (simp add: enrich_opponent_metrics_def Let_def a b)
    with assms show ?thesis by simp
  next
    case (Inr c) then show ?thesis using that by simp
  qed
  have la: "length a = length ?rs" and lb: "length b = length ?rs"
    using get_opponent_length[OF a] get_opponent_length[OF b] by simp_all
  let ?tid = "map (\<lambda>r. fillna (teamid r) (teamname r)) ?rs"
  have facts: "labels out =
           assign_labels (labels oe_data)
             (if split_on = Some ''player''
              then [''teamid'', ''opponentteam'', ''opponentteamid'', ''opponent_egpm'',
                    ''playerid'', ''opponentname'', ''opponentid'']
              else [''teamid'', ''opponentteam'', ''opponentteamid'', ''opponent_egpm''])
      \<and> map opponentteamid (rows out) = map (\<lambda>i. b ! i) [0..<length ?rs]
      \<and> map opponentteam (rows out) = map (\<lambda>i. a ! i) [0..<length ?rs]
      \<and> map teamid (rows out) = map (\<lambda>i. ?tid ! i) [0..<length ?rs]
      \<and> length (rows out) = length ?rs
      \<and> (split_on = Some ''player'' \<longrightarrow>
           get_opponent (map playerid ?rs) split_on = Inr (map opponentid (rows out)) \<and>
           map playerid (rows out) = map (\<lambda>r. fillna (playerid r) (playername r)) ?rs)"
  proof (cases "split_on = Some ''player''")
    case False
    have "enrich_opponent_metrics oe_data split_on =
        Inr \<lparr> labels = assign_labels (labels oe_data)
                 [''teamid'', ''opponentteam'', ''opponentteamid'', ''opponent_egpm''],
              rows = map (\<lambda>i. row.extend ((?rs ! i)\<lparr>teamid := ?tid ! i\<rparr>)
                          (opp_row.fields (a ! i) (b ! i) (c ! i) None None))
                       [0..<length ?rs] \<rparr>"
      using False by (simp add: enrich_opponent_metrics_def Let_def a b c)
    with assms have "out = \<lparr> labels = assign_labels (labels oe_data)
                 [''teamid'', ''opponentteam'', ''opponentteamid'', ''opponent_egpm''],
              rows = map (\<lambda>i. row.extend ((?rs ! i)\<lparr>teamid := ?tid ! i\<rparr>)
                          (opp_row.fields (a ! i) (b ! i) (c ! i) None None))
                       [0..<length ?rs] \<rparr>" by simp
    then show ?thesis using False by (simp add: row.defs opp_row.defs comp_def)
  next
    case True
    let ?pid = "map (\<lambda>r. fillna (playerid r) (playername r)) ?rs"
    note a' = a[unfolded True] and b' = b[unfolded True] and c' = c[unfolded True]
    obtain d where d': "get_opponent (map playername ?rs) (Some ''player'') = Inr d"
    proof (cases "get_opponent (map playername ?rs) (Some ''player'')")
      case (Inl x)
      then have "enrich_opponent_metrics oe_data (Some ''player'') = Inl x"
        by (simp add: enrich_opponent_metrics_def Let_def a' b' c')
      with assms True show ?thesis by simp
    next
      case (Inr d) then show ?thesis using that by simp
    qed
    obtain e where e': "get_opponent (map playerid ?rs) (Some ''player'') = Inr e"
    proof (cases "get_opponent (map playerid ?rs) (Some ''player'')")
      case (Inl x)
      then have "enrich_opponent_metrics oe_data (Some ''player'') = Inl x"
        by (simp add: enrich_opponent_metrics_def Let_def a' b' c' d')
      with assms True show ?thesis by simp
    next
      case (Inr e) then show ?thesis using that by simp
    qed
    have "enrich_opponent_metrics oe_data (Some ''player'') =
        Inr \<lparr> labels = assign_labels (labels oe_data)
                    [''teamid'', ''opponentteam'', ''opponentteamid'', ''opponent_egpm'',
                     ''playerid'', ''opponentname'', ''opponentid''],
                 rows = map (\<lambda>i. row.extend ((?rs ! i)\<lparr>teamid := ?tid ! i, playerid := ?pid ! i\<rparr>)
                             (opp_row.fields (a ! i) (b ! i) (c ! i) (d ! i) (e ! i)))
                          [0..<length ?rs] \<rparr>"
      by (simp add: enrich_opponent_metrics_def Let_def a' b' c' d' e')
    with assms True have "out = \<lparr> labels = assign_labels (labels oe_data)
                    [''teamid'', ''opponentteam'', ''opponentteamid'', ''opponent_egpm'',
                     ''playerid'', ''opponentname'', ''opponentid''],
                 rows = map (\<lambda>i. row.extend ((?rs ! i)\<lparr>teamid := ?tid ! i, playerid := ?pid ! i\<rparr>)
                             (opp_row.fields (a ! i) (b ! i) (c ! i) (d ! i) (e ! i)))
                          [0..<length ?rs] \<rparr>" by simp
    then have *: "labels out = assign_labels (labels oe_data)
                    [''teamid'', ''opponentteam'', ''opponentteamid'', ''opponent_egpm'',
                     ''playerid'', ''opponentname'', ''opponentid'']"
      "map opponentteamid (rows out) = map (\<lambda>i. b ! i) [0..<length ?rs]"
      "map opponentteam (rows out) = map (\<lambda>i. a ! i) [0..<length ?rs]"
      "map teamid (rows out) = map (\<lambda>i. ?tid ! i) [0..<length ?rs]"
      "length (rows out) = length ?rs"
      "map opponentid (rows out) = map (\<lambda>i. e ! i) [0..<length ?rs]"
      "map playerid (rows out) = map (\<lambda>i. ?pid ! i) [0..<length ?rs]"
      by (simp_all add: row.defs opp_row.defs comp_def)
    have le: "length e = length ?rs" using get_opponent_length[OF e'] by simp
    have "map opponentid (rows out) = e" unfolding *(6) using le by (rule map_nth_upt)
    moreover have "map playerid (rows out) = ?pid" unfolding *(7) by (rule map_nth_upt) simp
    ultimately show ?thesis using True * e' by simp
  qed
  from facts show "labels out =
           assign_labels (labels oe_data)
             (if split_on = Some ''player''
              then [''teamid'', ''opponentteam'', ''opponentteamid'', ''opponent_egpm'',
                    ''playerid'', ''opponentname'', ''opponentid'']
              else [''teamid'', ''opponentteam'', ''opponentteamid'', ''opponent_egpm''])"
    by (rule conjunct1)
  from facts have rows_b: "map opponentteamid (rows out) = map (\<lambda>i. b ! i) [0..<length ?rs]"
    by (elim conjE)
  from facts have rows_a: "map opponentteam (rows out) = map (\<lambda>i. a ! i) [0..<length ?rs]"
    by (elim conjE)
  from facts have rows_t: "map teamid (rows out) = map (\<lambda>i. ?tid ! i) [0..<length ?rs]"
    by (elim conjE)
  from facts have len: "length (rows out) = length ?rs"
    by (elim conjE)
  show "get_opponent (map teamid ?rs) split_on = Inr (map opponentteamid (rows out))"
    unfolding rows_b b using lb by (simp only: map_nth_upt)
  show "get_opponent (map teamname ?rs) split_on = Inr (map opponentteam (rows out))"
    unfolding rows_a a using la by (simp only: map_nth_upt)
  have "length ?tid = length ?rs" by simp
  then show "map teamid (rows out) = ?tid"
    unfolding rows_t by (rule map_nth_upt)
  show "length (rows out) = length ?rs" by (rule len)
  from facts show "split_on = Some ''player'' \<longrightarrow>
           get_opponent (map playerid ?rs) split_on = Inr (map opponentid (rows out)) \<and>
           map playerid (rows out) = map (\<lambda>r. fillna (playerid r) (playername r)) ?rs"
    by (elim conjE)
qed


lemma clean_data_Inr:
  assumes "clean_data to_datetime div60 oe_data split_on = Inr out"
  shows "\<exists>d1 d5 d6 d7.
           format_data_types to_datetime div60 oe_data = Inr d1 \<and>
           fill_null_team_ids (sort_data (drop_unknown_entities (remove_null_games d1)) split_on) split_on = Inr d5 \<and>
           subset_data d5 split_on = Inr d6 \<and>
           remove_inconsistent_games d6 split_on = Inr d7 \<and>
           enrich_opponent_metrics d7 split_on = Inr out"
  using assms by (simp add: clean_data_def Let_def split: sum.splits)

lemma subset_data_Inr:
  assumes "subset_data d split_on = Inr f"
  shows "\<exists>s cols rs. split_on = Some s \<and> (s = ''team'' \<or> s = ''player'') \<and>
           map_of columns s = Some cols \<and> d = Some rs \<and> labels f = cols \<and>
           rows f = (if s = ''team'' then filter (\<lambda>r. position r = Some ''team'') rs
                     else filter (\<lambda>r. position r \<noteq> Some ''team'') rs)"
proof -
  obtain s where s: "split_on = Some s"
    using assms by (cases split_on) (simp_all add: subset_data_def)
  obtain cols where c: "map_of columns s = Some cols"
    using assms s by (cases "map_of columns s") (simp_all add: subset_data_def)
  have tp: "s = ''team'' \<or> s = ''player''"
    using c by (auto simp: columns_def split: if_splits)
  obtain rs where d: "d = Some rs"
    using assms s c by (cases d) (simp_all add: subset_data_def)
  have low: "(lower s = ''team'') = (s = ''team'')"
  proof -
    have "lower ''team'' = ''team''" by code_simp
    moreover have "lower ''player'' \<noteq> ''team''" by code_simp
    ultimately show ?thesis using tp by auto
  qed
  have "subset_data d split_on =
      Inr \<lparr> labels = cols,
            rows = (if s = ''team'' then filter (\<lambda>r. position r = Some ''team'') rs
                    else filter (\<lambda>r. position r \<noteq> Some ''team'') rs) \<rparr>"
    by (simp add: subset_data_def s c d low)
  with assms have "f = \<lparr> labels = cols,
            rows = (if s = ''team'' then filter (\<lambda>r. position r = Some ''team'') rs
                    else filter (\<lambda>r. position r \<noteq> Some ''team'') rs) \<rparr>" by simp
  then have "labels f = cols \<and>
           rows f = (if s = ''team'' then filter (\<lambda>r. position r = Some ''team'') rs
                     else filter (\<lambda>r. position r \<noteq> Some ''team'') rs)" by simp
  with s tp c d show ?thesis by blast
qed

text \<open>
  Claim C8, as the code has it. Whenever \<^verbatim>\<open>clean_data\<close> returns a table, \<open>split_on\<close>
  is \<^verbatim>\<open>"team"\<close> or \<^verbatim>\<open>"player"\<close> and the labels of the table are exactly the list
  that \<open>columns\<close> holds for that granularity followed by the opponent columns (three at team
  granularity, five at player granularity); no label occurs twice. That list is not the
  glossary's schema: at team granularity the table has every field of the glossary's Team
  Schema and, besides them, goldat15, xpat15 and csat15; at player granularity it has none of
  firstblood, dragons, barons and towers.
\<close>

theorem clean_data_columns:
  assumes "clean_data to_datetime div60 oe_data split_on = Inr out"
  shows "\<exists>s cols. split_on = Some s \<and> (s = ''team'' \<or> s = ''player'') \<and>
           map_of columns s = Some cols \<and>
           labels out = cols @ (if s = ''player''
                                then [''opponentteam'', ''opponentteamid'', ''opponent_egpm'',
                                      ''opponentname'', ''opponentid'']
                                else [''opponentteam'', ''opponentteamid'', ''opponent_egpm'']) \<and>
           distinct (labels out) \<and>
           (s = ''team'' \<longrightarrow>
              filter (\<lambda>c. c \<notin> set glossary_team_schema) (labels out) =
                [''goldat15'', ''xpat15'', ''csat15''] \<and>
              filter (\<lambda>c. c \<notin> set (labels out)) glossary_team_schema = []) \<and>
           (s = ''player'' \<longrightarrow>
              filter (\<lambda>c. c \<in> set (labels out)) [''firstblood'', ''dragons'', ''barons'', ''towers''] = [])"
proof -
  from clean_data_Inr[OF assms] obtain d5 d6 d7 where
    sub: "subset_data d5 split_on = Inr d6" and
    rem: "remove_inconsistent_games d6 split_on = Inr d7" and
    enr: "enrich_opponent_metrics d7 split_on = Inr out"
    by blast
  from subset_data_Inr[OF sub] obtain s cols where
    s: "split_on = Some s" and tp: "s = ''team'' \<or> s = ''player''" and
    c: "map_of columns s = Some cols" and l6: "labels d6 = cols"
    by blast
  have l7: "labels d7 = cols"
    using rem l6 unfolding s remove_inconsistent_games_rows by auto
  have lo: "labels out =
           assign_labels cols
             (if split_on = Some ''player''
              then [''teamid'', ''opponentteam'', ''opponentteamid'', ''opponent_egpm'',
                    ''playerid'', ''opponentname'', ''opponentid'']
              else [''teamid'', ''opponentteam'', ''opponentteamid'', ''opponent_egpm''])"
    using enrich_opponent_metrics_Inr(1)[OF enr] l7 by simp
  from tp have "labels out = cols @ (if s = ''player''
                                then [''opponentteam'', ''opponentteamid'', ''opponent_egpm'',
                                      ''opponentname'', ''opponentid'']
                                else [''opponentteam'', ''opponentteamid'', ''opponent_egpm'']) \<and>
           distinct (labels out) \<and>
           (s = ''team'' \<longrightarrow>
              filter (\<lambda>c. c \<notin> set glossary_team_schema) (labels out) =
                [''goldat15'', ''xpat15'', ''csat15''] \<and>
              filter (\<lambda>c. c \<notin> set (labels out)) glossary_team_schema = []) \<and>
           (s = ''player'' \<longrightarrow>
              filter (\<lambda>c. c \<in> set (labels out)) [''firstblood'', ''dragons'', ''barons'', ''towers''] = [])"
  proof
    assume t: "s = ''team''"
    have cols: "cols = [''date'', ''gameid'', ''side'', ''league'', ''patch'', ''teamname'', ''teamid'',
         ''result'', ''kills'', ''deaths'', ''assists'', ''egpm'', ''gamelength'', ''ckpm'',
         ''team kpm'', ''firstblood'', ''dragons'', ''barons'', ''towers'', ''goldat15'',
         ''xpat15'', ''csat15'', ''golddiffat15'', ''xpdiffat15'', ''csdiffat15'']"
      using c t by (simp add: columns_def)
    have l: "labels out = [''date'', ''gameid'', ''side'', ''league'', ''patch'', ''teamname'', ''teamid'',
         ''result'', ''kills'', ''deaths'', ''assists'', ''egpm'', ''gamelength'', ''ckpm'',
         ''team kpm'', ''firstblood'', ''dragons'', ''barons'', ''towers'', ''goldat15'',
         ''xpat15'', ''csat15'', ''golddiffat15'', ''xpdiffat15'', ''csdiffat15'',
         ''opponentteam'', ''opponentteamid'', ''opponent_egpm'']"
      unfolding lo s t cols by (simp add: assign_labels_def)
    have extra: "filter (\<lambda>c. c \<notin> set glossary_team_schema) [''date'', ''gameid'', ''side'', ''league'', ''patch'', ''teamname'', ''teamid'',
         ''result'', ''kills'', ''deaths'', ''assists'', ''egpm'', ''gamelength'', ''ckpm'',
         ''team kpm'', ''firstblood'', ''dragons'', ''barons'', ''towers'', ''goldat15'',
         ''xpat15'', ''csat15'', ''golddiffat15'', ''xpdiffat15'', ''csdiffat15'',
         ''opponentteam'', ''opponentteamid'', ''opponent_egpm''] =
                [''goldat15'', ''xpat15'', ''csat15'']"
      by code_simp
    have missing: "filter (\<lambda>c. c \<notin> set [''date'', ''gameid'', ''side'', ''league'', ''patch'', ''teamname'', ''teamid'',
         ''result'', ''kills'', ''deaths'', ''assists'', ''egpm'', ''gamelength'', ''ckpm'',
         ''team kpm'', ''firstblood'', ''dragons'', ''barons'', ''towers'', ''goldat15'',
         ''xpat15'', ''csat15'', ''golddiffat15'', ''xpdiffat15'', ''csdiffat15'',
         ''opponentteam'', ''opponentteamid'', ''opponent_egpm'']) glossary_team_schema = []"
      by code_simp
    have np: "s \<noteq> ''player''" using t by simp
    show ?thesis
      unfolding l using extra missing t np unfolding cols by simp
  next
    assume p: "s = ''player''"
    have cols: "cols = [''date'', ''gameid'', ''side'', ''position'', ''league'', ''patch'', ''playername'',
         ''playerid'', ''teamname'', ''teamid'', ''result'', ''kills'', ''deaths'', ''assists'',
         ''total cs'', ''egpm'', ''earnedgoldshare'', ''damagetochampions'', ''dpm'',
         ''damageshare'', ''damagetakenperminute'', ''wardsplaced'', ''wpm'', ''wardskilled'',
         ''wcpm'', ''controlwardsbought'', ''visionscore'', ''vspm'', ''totalgold'',
         ''monsterkills'', ''minionkills'', ''gamelength'', ''ckpm'', ''cspm'', ''team kpm'',
         ''goldat15'', ''xpat15'', ''csat15'', ''killsat15'', ''assistsat15'', ''deathsat15'',
         ''opp_killsat15'', ''opp_assistsat15'', ''opp_deathsat15'', ''golddiffat15'',
         ''xpdiffat15'', ''csdiffat15'']"
      using c p by (simp add: columns_def)
    have l: "labels out = [''date'', ''gameid'', ''side'', ''position'', ''league'', ''patch'', ''playername'',
         ''playerid'', ''teamname'', ''teamid'', ''result'', ''kills'', ''deaths'', ''assists'',
         ''total cs'', ''egpm'', ''earnedgoldshare'', ''damagetochampions'', ''dpm'',
         ''damageshare'', ''damagetakenperminute'', ''wardsplaced'', ''wpm'', ''wardskilled'',
         ''wcpm'', ''controlwardsbought'', ''visionscore'', ''vspm'', ''totalgold'',
         ''monsterkills'', ''minionkills'', ''gamelength'', ''ckpm'', ''cspm'', ''team kpm'',
         ''goldat15'', ''xpat15'', ''csat15'', ''killsat15'', ''assistsat15'', ''deathsat15'',
         ''opp_killsat15'', ''opp_assistsat15'', ''opp_deathsat15'', ''golddiffat15'',
         ''xpdiffat15'', ''csdiffat15'',
         ''opponentteam'', ''opponentteamid'', ''opponent_egpm'', ''opponentname'',
         ''opponentid'']"
      unfolding lo s p cols by (simp add: assign_labels_def)
    have none: "filter (\<lambda>c. c \<in> set [''date'', ''gameid'', ''side'', ''position'', ''league'', ''patch'', ''playername'',
         ''playerid'', ''teamname'', ''teamid'', ''result'', ''kills'', ''deaths'', ''assists'',
         ''total cs'', ''egpm'', ''earnedgoldshare'', ''damagetochampions'', ''dpm'',
         ''damageshare'', ''damagetakenperminute'', ''wardsplaced'', ''wpm'', ''wardskilled'',
         ''wcpm'', ''controlwardsbought'', ''visionscore'', ''vspm'', ''totalgold'',
         ''monsterkills'', ''minionkills'', ''gamelength'', ''ckpm'', ''cspm'', ''team kpm'',
         ''goldat15'', ''xpat15'', ''csat15'', ''killsat15'', ''assistsat15'', ''deathsat15'',
         ''opp_killsat15'', ''opp_assistsat15'', ''opp_deathsat15'', ''golddiffat15'',
         ''xpdiffat15'', ''csdiffat15'',
         ''opponentteam'', ''opponentteamid'', ''opponent_egpm'', ''opponentname'',
         ''opponentid''])
                  [''firstblood'', ''dragons'', ''barons'', ''towers''] = []"
      by code_simp
    have nt: "s \<noteq> ''team''" using p by simp
    show ?thesis
      unfolding l using none p nt unfolding cols by simp
  qed
  with s tp c show ?thesis by blast
qed

text \<open>
  A run at team granularity and a run at player granularity on one table: one game with its
  two team rows and one player row, the Blue team row without a \<open>teamid\<close>. At team
  granularity the rows come out sorted (Blue before Red); at player granularity the
  incomplete game is dropped and only the labels remain.
\<close>

lemma clean_data_example:
  "clean_data (\<lambda>col. Some (map (map_option (\<lambda>s. if s = ''2023-01-10'' then 10 else 0)) col))
     (\<lambda>x::rat. x / 60)
     [\<lparr>date = Some ''2023-01-10'', gameid = Some ''g1'', side = Some ''Red'',
       position = Some ''team'', league = Some ''LCK'', playername = None, playerid = None,
       teamname = Some ''B'', teamid = Some ''idB'', egpm = 240, gamelength = 1800,
       others = ()\<rparr>,
      \<lparr>date = Some ''2023-01-10'', gameid = Some ''g1'', side = Some ''Blue'',
       position = Some ''team'', league = Some ''LCK'', playername = None, playerid = None,
       teamname = Some ''A'', teamid = None, egpm = 250, gamelength = 1800,
       others = ()\<rparr>,
      \<lparr>date = Some ''2023-01-10'', gameid = Some ''g1'', side = Some ''Blue'',
       position = Some ''top'', league = Some ''LCK'', playername = Some ''P1'', playerid = Some ''idP1'',
       teamname = Some ''A'', teamid = None, egpm = 50, gamelength = 1800,
       others = ()\<rparr>]
     (Some ''team'') =
   Inr \<lparr>labels = [''date'', ''gameid'', ''side'', ''league'', ''patch'', ''teamname'', ''teamid'',
         ''result'', ''kills'', ''deaths'', ''assists'', ''egpm'', ''gamelength'', ''ckpm'',
         ''team kpm'', ''firstblood'', ''dragons'', ''barons'', ''towers'', ''goldat15'',
         ''xpat15'', ''csat15'', ''golddiffat15'', ''xpdiffat15'', ''csdiffat15'',
         ''opponentteam'', ''opponentteamid'', ''opponent_egpm''],
        rows =
          [\<lparr>date = Some 10, gameid = Some ''g1'', side = Some ''Blue'',
            position = Some ''team'', league = Some ''LCK'', playername = None, playerid = None,
            teamname = Some ''A'', teamid = Some ''A'', egpm = 250, gamelength = 30,
            others = (), opponentteam = Some ''B'', opponentteamid = Some ''idB'',
            opponent_egpm = 240, opponentname = None, opponentid = None\<rparr>,
           \<lparr>date = Some 10, gameid = Some ''g1'', side = Some ''Red'',
            position = Some ''team'', league = Some ''LCK'', playername = None, playerid = None,
            teamname = Some ''B'', teamid = Some ''idB'', egpm = 240, gamelength = 30,
            others = (), opponentteam = Some ''A'', opponentteamid = None,
            opponent_egpm = 250, opponentname = None, opponentid = None\<rparr>]\<rparr>"
  by code_simp

theorem clean_data_columns_witness:
  "\<exists>out. clean_data (\<lambda>col. Some (map (map_option (\<lambda>s. if s = ''2023-01-10'' then 10 else 0)) col))
     (\<lambda>x::rat. x / 60)
     [\<lparr>date = Some ''2023-01-10'', gameid = Some ''g1'', side = Some ''Red'',
       position = Some ''team'', league = Some ''LCK'', playername = None, playerid = None,
       teamname = Some ''B'', teamid = Some ''idB'', egpm = 240, gamelength = 1800,
       others = ()\<rparr>,
      \<lparr>date = Some ''2023-01-10'', gameid = Some ''g1'', side = Some ''Blue'',
       position = Some ''team'', league = Some ''LCK'', playername = None, playerid = None,
       teamname = Some ''A'', teamid = None, egpm = 250, gamelength = 1800,
       others = ()\<rparr>,
      \<lparr>date = Some ''2023-01-10'', gameid = Some ''g1'', side = Some ''Blue'',
       position = Some ''top'', league = Some ''LCK'', playername = Some ''P1'', playerid = Some ''idP1'',
       teamname = Some ''A'', teamid = None, egpm = 50, gamelength = 1800,
       others = ()\<rparr>]
     (Some ''team'') = Inr out \<and>
     labels out = [''date'', ''gameid'', ''side'', ''league'', ''patch'', ''teamname'', ''teamid'',
         ''result'', ''kills'', ''deaths'', ''assists'', ''egpm'', ''gamelength'', ''ckpm'',
         ''team kpm'', ''firstblood'', ''dragons'', ''barons'', ''towers'', ''goldat15'',
         ''xpat15'', ''csat15'', ''golddiffat15'', ''xpdiffat15'', ''csdiffat15'',
         ''opponentteam'', ''opponentteamid'', ''opponent_egpm'']"
proof -
  let ?out = "\<lparr>labels = [''date'', ''gameid'', ''side'', ''league'', ''patch'', ''teamname'', ''teamid'',
         ''result'', ''kills'', ''deaths'', ''assists'', ''egpm'', ''gamelength'', ''ckpm'',
         ''team kpm'', ''firstblood'', ''dragons'', ''barons'', ''towers'', ''goldat15'',
         ''xpat15'', ''csat15'', ''golddiffat15'', ''xpdiffat15'', ''csdiffat15'',
         ''opponentteam'', ''opponentteamid'', ''opponent_egpm''],
        rows =
          [\<lparr>date = Some (10::int), gameid = Some ''g1'', side = Some ''Blue'',
            position = Some ''team'', league = Some ''LCK'', playername = None, playerid = None,
            teamname = Some ''A'', teamid = Some ''A'', egpm = (250::rat), gamelength = (30::rat),
            others = (), opponentteam = Some ''B'', opponentteamid = Some ''idB'',
            opponent_egpm = (240::rat), opponentname = None, opponentid = None\<rparr>,
           \<lparr>date = Some (10::int), gameid = Some ''g1'', side = Some ''Red'',
            position = Some ''team'', league = Some ''LCK'', playername = None, playerid = None,
            teamname = Some ''B'', teamid = Some ''idB'', egpm = (240::rat), gamelength = (30::rat),
            others = (), opponentteam = Some ''A'', opponentteamid = None,
            opponent_egpm = (250::rat), opponentname = None, opponentid = None\<rparr>]\<rparr>"
  have r: "labels ?out = [''date'', ''gameid'', ''side'', ''league'', ''patch'', ''teamname'', ''teamid'',
         ''result'', ''kills'', ''deaths'', ''assists'', ''egpm'', ''gamelength'', ''ckpm'',
         ''team kpm'', ''firstblood'', ''dragons'', ''barons'', ''towers'', ''goldat15'',
         ''xpat15'', ''csat15'', ''golddiffat15'', ''xpdiffat15'', ''csdiffat15'',
         ''opponentteam'', ''opponentteamid'', ''opponent_egpm'']"
    using clean_data_columns[OF clean_data_example]
    apply (elim exE conjE)
    apply simp
    done
  show ?thesis
    by (rule exI[of _ ?out]) (rule conjI[OF clean_data_example r])
qed

text \<open>
  The claim as written (exactly the glossary's schema, no extra column and none missing) fails
  at both granularities: the team table has the column goldat15, which is no field of the
  glossary's Team Schema, and the player table has no column firstblood, which the glossary's
  Player Schema takes over from the Team Schema.
\<close>

theorem clean_data_columns_counterexample:
  "clean_data (\<lambda>col. Some (map (map_option (\<lambda>s. if s = ''2023-01-10'' then 10 else 0)) col))
     (\<lambda>x::rat. x / 60)
     [\<lparr>date = Some ''2023-01-10'', gameid = Some ''g1'', side = Some ''Red'',
       position = Some ''team'', league = Some ''LCK'', playername = None, playerid = None,
       teamname = Some ''B'', teamid = Some ''idB'', egpm = 240, gamelength = 1800,
       others = ()\<rparr>,
      \<lparr>date = Some ''2023-01-10'', gameid = Some ''g1'', side = Some ''Blue'',
       position = Some ''team'', league = Some ''LCK'', playername = None, playerid = None,
       teamname = Some ''A'', teamid = None, egpm = 250, gamelength = 1800,
       others = ()\<rparr>,
      \<lparr>date = Some ''2023-01-10'', gameid = Some ''g1'', side = Some ''Blue'',
       position = Some ''top'', league = Some ''LCK'', playername = Some ''P1'', playerid = Some ''idP1'',
       teamname = Some ''A'', teamid = None, egpm = 50, gamelength = 1800,
       others = ()\<rparr>]
     (Some ''team'') =
   Inr \<lparr>labels = [''date'', ''gameid'', ''side'', ''league'', ''patch'', ''teamname'', ''teamid'',
         ''result'', ''kills'', ''deaths'', ''assists'', ''egpm'', ''gamelength'', ''ckpm'',
         ''team kpm'', ''firstblood'', ''dragons'', ''barons'', ''towers'', ''goldat15'',
         ''xpat15'', ''csat15'', ''golddiffat15'', ''xpdiffat15'', ''csdiffat15'',
         ''opponentteam'', ''opponentteamid'', ''opponent_egpm''],
        rows =
          [\<lparr>date = Some 10, gameid = Some ''g1'', side = Some ''Blue'',
            position = Some ''team'', league = Some ''LCK'', playername = None, playerid = None,
            teamname = Some ''A'', teamid = Some ''A'', egpm = 250, gamelength = 30,
            others = (), opponentteam = Some ''B'', opponentteamid = Some ''idB'',
            opponent_egpm = 240, opponentname = None, opponentid = None\<rparr>,
           \<lparr>date = Some 10, gameid = Some ''g1'', side = Some ''Red'',
            position = Some ''team'', league = Some ''LCK'', playername = None, playerid = None,
            teamname = Some ''B'', teamid = Some ''idB'', egpm = 240, gamelength = 30,
            others = (), opponentteam = Some ''A'', opponentteamid = None,
            opponent_egpm = 250, opponentname = None, opponentid = None\<rparr>]\<rparr>
   \<and> ''goldat15'' \<in> set (labels \<lparr>labels = [''date'', ''gameid'', ''side'', ''league'', ''patch'', ''teamname'', ''teamid'',
         ''result'', ''kills'', ''deaths'', ''assists'', ''egpm'', ''gamelength'', ''ckpm'',
         ''team kpm'', ''firstblood'', ''dragons'', ''barons'', ''towers'', ''goldat15'',
         ''xpat15'', ''csat15'', ''golddiffat15'', ''xpdiffat15'', ''csdiffat15'',
         ''opponentteam'', ''opponentteamid'', ''opponent_egpm''],
        rows =
          [\<lparr>date = Some 10, gameid = Some ''g1'', side = Some ''Blue'',
            position = Some ''team'', league = Some ''LCK'', playername = None, playerid = None,
            teamname = Some ''A'', teamid = Some ''A'', egpm = 250, gamelength = 30,
            others = (), opponentteam = Some ''B'', opponentteamid = Some ''idB'',
            opponent_egpm = 240, opponentname = None, opponentid = None\<rparr>,
           \<lparr>date = Some 10, gameid = Some ''g1'', side = Some ''Red'',
            position = Some ''team'', league = Some ''LCK'', playername = None, playerid = None,
            teamname = Some ''B'', teamid = Some ''idB'', egpm = 240, gamelength = 30,
            others = (), opponentteam = Some ''A'', opponentteamid = None,
            opponent_egpm = 250, opponentname = None, opponentid = None\<rparr>]\<rparr>)
   \<and> ''goldat15'' \<notin> set glossary_team_schema
   \<and>
   clean_data (\<lambda>col. Some (map (map_option (\<lambda>s. if s = ''2023-01-10'' then 10 else 0)) col))
     (\<lambda>x::rat. x / 60)
     [\<lparr>date = Some ''2023-01-10'', gameid = Some ''g1'', side = Some ''Red'',
       position = Some ''team'', league = Some ''LCK'', playername = None, playerid = None,
       teamname = Some ''B'', teamid = Some ''idB'', egpm = 240, gamelength = 1800,
       others = ()\<rparr>,
      \<lparr>date = Some ''2023-01-10'', gameid = Some ''g1'', side = Some ''Blue'',
       position = Some ''team'', league = Some ''LCK'', playername = None, playerid = None,
       teamname = Some ''A'', teamid = None, egpm = 250, gamelength = 1800,
       others = ()\<rparr>,
      \<lparr>date = Some ''2023-01-10'', gameid = Some ''g1'', side = Some ''Blue'',
       position = Some ''top'', league = Some ''LCK'', playername = Some ''P1'', playerid = Some ''idP1'',
       teamname = Some ''A'', teamid = None, egpm = 50, gamelength = 1800,
       others = ()\<rparr>]
     (Some ''player'') =
   Inr \<lparr>labels = [''date'', ''gameid'', ''side'', ''position'', ''league'', ''patch'', ''playername'',
         ''playerid'', ''teamname'', ''teamid'', ''result'', ''kills'', ''deaths'', ''assists'',
         ''total cs'', ''egpm'', ''earnedgoldshare'', ''damagetochampions'', ''dpm'',
         ''damageshare'', ''damagetakenperminute'', ''wardsplaced'', ''wpm'', ''wardskilled'',
         ''wcpm'', ''controlwardsbought'', ''visionscore'', ''vspm'', ''totalgold'',
         ''monsterkills'', ''minionkills'', ''gamelength'', ''ckpm'', ''cspm'', ''team kpm'',
         ''goldat15'', ''xpat15'', ''csat15'', ''killsat15'', ''assistsat15'', ''deathsat15'',
         ''opp_killsat15'', ''opp_assistsat15'', ''opp_deathsat15'', ''golddiffat15'',
         ''xpdiffat15'', ''csdiffat15'',
         ''opponentteam'', ''opponentteamid'', ''opponent_egpm'', ''opponentname'',
         ''opponentid''],
        rows = []\<rparr>
   \<and> ''firstblood'' \<in> set glossary_team_schema
   \<and> ''firstblood'' \<notin> set (labels \<lparr>labels = [''date'', ''gameid'', ''side'', ''position'', ''league'', ''patch'', ''playername'',
         ''playerid'', ''teamname'', ''teamid'', ''result'', ''kills'', ''deaths'', ''assists'',
         ''total cs'', ''egpm'', ''earnedgoldshare'', ''damagetochampions'', ''dpm'',
         ''damageshare'', ''damagetakenperminute'', ''wardsplaced'', ''wpm'', ''wardskilled'',
         ''wcpm'', ''controlwardsbought'', ''visionscore'', ''vspm'', ''totalgold'',
         ''monsterkills'', ''minionkills'', ''gamelength'', ''ckpm'', ''cspm'', ''team kpm'',
         ''goldat15'', ''xpat15'', ''csat15'', ''killsat15'', ''assistsat15'', ''deathsat15'',
         ''opp_killsat15'', ''opp_assistsat15'', ''opp_deathsat15'', ''golddiffat15'',
         ''xpdiffat15'', ''csdiffat15'',
         ''opponentteam'', ''opponentteamid'', ''opponent_egpm'', ''opponentname'',
         ''opponentid''],
        rows = []\<rparr>)"
  by code_simp

text \<open>
  Claim C10. \<^verbatim>\<open>enrich_opponent_metrics\<close> computes \<open>opponentteamid\<close> (and, at player
  granularity, \<open>opponentid\<close>) by \<^verbatim>\<open>get_opponent\<close> from the \<open>teamid\<close> (\<open>playerid\<close>)
  column of the table it receives, while the \<open>teamid\<close> (\<open>playerid\<close>) column of its result is
  the backfilled one. So there is an input, with one raw \<open>teamid\<close> missing, whose cleaned
  table has a missing \<open>opponentteamid\<close> although every \<open>teamid\<close> in it is present.
\<close>

theorem opponent_ids_read_before_backfill:
  "(enrich_opponent_metrics oe_data split_on = Inr out \<longrightarrow>
      get_opponent (map teamid (rows oe_data)) split_on = Inr (map opponentteamid (rows out)) \<and>
      map teamid (rows out) = map (\<lambda>r. fillna (teamid r) (teamname r)) (rows oe_data) \<and>
      (split_on = Some ''player'' \<longrightarrow>
         get_opponent (map playerid (rows oe_data)) split_on = Inr (map opponentid (rows out)) \<and>
         map playerid (rows out) = map (\<lambda>r. fillna (playerid r) (playername r)) (rows oe_data)))
   \<and>
   (\<exists>cleaned. clean_data (\<lambda>col. Some (map (map_option (\<lambda>s. if s = ''2023-01-10'' then 10 else 0)) col))
     (\<lambda>x::rat. x / 60)
     [\<lparr>date = Some ''2023-01-10'', gameid = Some ''g1'', side = Some ''Red'',
       position = Some ''team'', league = Some ''LCK'', playername = None, playerid = None,
       teamname = Some ''B'', teamid = Some ''idB'', egpm = 240, gamelength = 1800,
       others = ()\<rparr>,
      \<lparr>date = Some ''2023-01-10'', gameid = Some ''g1'', side = Some ''Blue'',
       position = Some ''team'', league = Some ''LCK'', playername = None, playerid = None,
       teamname = Some ''A'', teamid = None, egpm = 250, gamelength = 1800,
       others = ()\<rparr>,
      \<lparr>date = Some ''2023-01-10'', gameid = Some ''g1'', side = Some ''Blue'',
       position = Some ''top'', league = Some ''LCK'', playername = Some ''P1'', playerid = Some ''idP1'',
       teamname = Some ''A'', teamid = None, egpm = 50, gamelength = 1800,
       others = ()\<rparr>]
     (Some ''team'') = Inr cleaned \<and>
      map teamid (rows cleaned) = [Some ''A'', Some ''idB''] \<and>
      map opponentteamid (rows cleaned) = [Some ''idB'', None])"
proof (rule conjI)
  show "enrich_opponent_metrics oe_data split_on = Inr out \<longrightarrow>
      get_opponent (map teamid (rows oe_data)) split_on = Inr (map opponentteamid (rows out)) \<and>
      map teamid (rows out) = map (\<lambda>r. fillna (teamid r) (teamname r)) (rows oe_data) \<and>
      (split_on = Some ''player'' \<longrightarrow>
         get_opponent (map playerid (rows oe_data)) split_on = Inr (map opponentid (rows out)) \<and>
         map playerid (rows out) = map (\<lambda>r. fillna (playerid r) (playername r)) (rows oe_data))"
  proof
    assume e: "enrich_opponent_metrics oe_data split_on = Inr out"
    from enrich_opponent_metrics_Inr(2)[OF e] enrich_opponent_metrics_Inr(4)[OF e]
      enrich_opponent_metrics_Inr(6)[OF e]
    show "get_opponent (map teamid (rows oe_data)) split_on = Inr (map opponentteamid (rows out)) \<and>
      map teamid (rows out) = map (\<lambda>r. fillna (teamid r) (teamname r)) (rows oe_data) \<and>
      (split_on = Some ''player'' \<longrightarrow>
         get_opponent (map playerid (rows oe_data)) split_on = Inr (map opponentid (rows out)) \<and>
         map playerid (rows out) = map (\<lambda>r. fillna (playerid r) (playername r)) (rows oe_data))"
      by (intro conjI)
  qed
next
  let ?out = "\<lparr>labels = [''date'', ''gameid'', ''side'', ''league'', ''patch'', ''teamname'', ''teamid'',
         ''result'', ''kills'', ''deaths'', ''assists'', ''egpm'', ''gamelength'', ''ckpm'',
         ''team kpm'', ''firstblood'', ''dragons'', ''barons'', ''towers'', ''goldat15'',
         ''xpat15'', ''csat15'', ''golddiffat15'', ''xpdiffat15'', ''csdiffat15'',
         ''opponentteam'', ''opponentteamid'', ''opponent_egpm''],
        rows =
          [\<lparr>date = Some (10::int), gameid = Some ''g1'', side = Some ''Blue'',
            position = Some ''team'', league = Some ''LCK'', playername = None, playerid = None,
            teamname = Some ''A'', teamid = Some ''A'', egpm = (250::rat), gamelength = (30::rat),
            others = (), opponentteam = Some ''B'', opponentteamid = Some ''idB'',
            opponent_egpm = (240::rat), opponentname = None, opponentid = None\<rparr>,
           \<lparr>date = Some (10::int), gameid = Some ''g1'', side = Some ''Red'',
            position = Some ''team'', league = Some ''LCK'', playername = None, playerid = None,
            teamname = Some ''B'', teamid = Some ''idB'', egpm = (240::rat), gamelength = (30::rat),
            others = (), opponentteam = Some ''A'', opponentteamid = None,
            opponent_egpm = (250::rat), opponentname = None, opponentid = None\<rparr>]\<rparr>"
  have a: "map teamid (rows ?out) = [Some ''A'', Some ''idB'']"
    and b: "map opponentteamid (rows ?out) = [Some ''idB'', None]"
    by simp_all
  show "\<exists>cleaned. clean_data (\<lambda>col. Some (map (map_option (\<lambda>s. if s = ''2023-01-10'' then 10 else 0)) col))
     (\<lambda>x::rat. x / 60)
     [\<lparr>date = Some ''2023-01-10'', gameid = Some ''g1'', side = Some ''Red'',
       position = Some ''team'', league = Some ''LCK'', playername = None, playerid = None,
       teamname = Some ''B'', teamid = Some ''idB'', egpm = 240, gamelength = 1800,
       others = ()\<rparr>,
      \<lparr>date = Some ''2023-01-10'', gameid = Some ''g1'', side = Some ''Blue'',
       position = Some ''team'', league = Some ''LCK'', playername = None, playerid = None,
       teamname = Some ''A'', teamid = None, egpm = 250, gamelength = 1800,
       others = ()\<rparr>,
      \<lparr>date = Some ''2023-01-10'', gameid = Some ''g1'', side = Some ''Blue'',
       position = Some ''top'', league = Some ''LCK'', playername = Some ''P1'', playerid = Some ''idP1'',
       teamname = Some ''A'', teamid = None, egpm = 50, gamelength = 1800,
       others = ()\<rparr>]
     (Some ''team'') = Inr cleaned \<and>
      map teamid (rows cleaned) = [Some ''A'', Some ''idB''] \<and>
      map opponentteamid (rows cleaned) = [Some ''idB'', None]"
    by (rule exI[of _ ?out]) (intro conjI clean_data_example a b)
qed

theorem opponent_ids_read_before_backfill_witness:
  "enrich_opponent_metrics
     \<lparr>labels = [''teamname'', ''teamid'', ''egpm''],
      rows = [\<lparr>date = (), gameid = Some ''g1'', side = Some ''Blue'', position = Some ''team'',
                league = None, playername = None, playerid = None, teamname = Some ''A'',
                teamid = None, egpm = (), gamelength = (), others = ()\<rparr>,
              \<lparr>date = (), gameid = Some ''g1'', side = Some ''Red'', position = Some ''team'',
                league = None, playername = None, playerid = None, teamname = Some ''B'',
                teamid = Some ''idB'', egpm = (), gamelength = (), others = ()\<rparr>]\<rparr>
     (Some ''team'') =
   Inr \<lparr>labels = [''teamname'', ''teamid'', ''egpm'', ''opponentteam'', ''opponentteamid'', ''opponent_egpm''],
      rows = [\<lparr>date = (), gameid = Some ''g1'', side = Some ''Blue'', position = Some ''team'',
                league = None, playername = None, playerid = None, teamname = Some ''A'',
                teamid = Some ''A'', egpm = (), gamelength = (), others = (),
                opponentteam = Some ''B'', opponentteamid = Some ''idB'', opponent_egpm = (),
                opponentname = None, opponentid = None\<rparr>,
              \<lparr>date = (), gameid = Some ''g1'', side = Some ''Red'', position = Some ''team'',
                league = None, playername = None, playerid = None, teamname = Some ''B'',
                teamid = Some ''idB'', egpm = (), gamelength = (), others = (),
                opponentteam = Some ''A'', opponentteamid = None, opponent_egpm = (),
                opponentname = None, opponentid = None\<rparr>]\<rparr>
   \<and>
   get_opponent [None, Some ''idB''] (Some ''team'') = Inr [Some ''idB'', None]"
proof -
  have e: "enrich_opponent_metrics
     \<lparr>labels = [''teamname'', ''teamid'', ''egpm''],
      rows = [\<lparr>date = (), gameid = Some ''g1'', side = Some ''Blue'', position = Some ''team'',
                league = None, playername = None, playerid = None, teamname = Some ''A'',
                teamid = None, egpm = (), gamelength = (), others = ()\<rparr>,
              \<lparr>date = (), gameid = Some ''g1'', side = Some ''Red'', position = Some ''team'',
                league = None, playername = None, playerid = None, teamname = Some ''B'',
                teamid = Some ''idB'', egpm = (), gamelength = (), others = ()\<rparr>]\<rparr>
     (Some ''team'') =
   Inr \<lparr>labels = [''teamname'', ''teamid'', ''egpm'', ''opponentteam'', ''opponentteamid'', ''opponent_egpm''],
      rows = [\<lparr>date = (), gameid = Some ''g1'', side = Some ''Blue'', position = Some ''team'',
                league = None, playername = None, playerid = None, teamname = Some ''A'',
                teamid = Some ''A'', egpm = (), gamelength = (), others = (),
                opponentteam = Some ''B'', opponentteamid = Some ''idB'', opponent_egpm = (),
                opponentname = None, opponentid = None\<rparr>,
              \<lparr>date = (), gameid = Some ''g1'', side = Some ''Red'', position = Some ''team'',
                league = None, playername = None, playerid = None, teamname = Some ''B'',
                teamid = Some ''idB'', egpm = (), gamelength = (), others = (),
                opponentteam = Some ''A'', opponentteamid = None, opponent_egpm = (),
                opponentname = None, opponentid = None\<rparr>]\<rparr>"
    by code_simp
  have "get_opponent (map teamid (rows \<lparr>labels = [''teamname'', ''teamid'', ''egpm''],
      rows = [\<lparr>date = (), gameid = Some ''g1'', side = Some ''Blue'', position = Some ''team'',
                league = None, playername = None, playerid = None, teamname = Some ''A'',
                teamid = None, egpm = (), gamelength = (), others = ()\<rparr>,
              \<lparr>date = (), gameid = Some ''g1'', side = Some ''Red'', position = Some ''team'',
                league = None, playername = None, playerid = None, teamname = Some ''B'',
                teamid = Some ''idB'', egpm = (), gamelength = (), others = ()\<rparr>]\<rparr>)) (Some ''team'') =
        Inr (map opponentteamid (rows \<lparr>labels = [''teamname'', ''teamid'', ''egpm'', ''opponentteam'', ''opponentteamid'', ''opponent_egpm''],
      rows = [\<lparr>date = (), gameid = Some ''g1'', side = Some ''Blue'', position = Some ''team'',
                league = None, playername = None, playerid = None, teamname = Some ''A'',
                teamid = Some ''A'', egpm = (), gamelength = (), others = (),
                opponentteam = Some ''B'', opponentteamid = Some ''idB'', opponent_egpm = (),
                opponentname = None, opponentid = None\<rparr>,
              \<lparr>date = (), gameid = Some ''g1'', side = Some ''Red'', position = Some ''team'',
                league = None, playername = None, playerid = None, teamname = Some ''B'',
                teamid = Some ''idB'', egpm = (), gamelength = (), others = (),
                opponentteam = Some ''A'', opponentteamid = None, opponent_egpm = (),
                opponentname = None, opponentid = None\<rparr>]\<rparr>))"
    by (rule opponent_ids_read_before_backfill[THEN conjunct1, THEN mp, OF e, THEN conjunct1])
  then have "get_opponent [None, Some ''idB''] (Some ''team'') = Inr [Some ''idB'', None]"
    by simp
  with e show ?thesis by simp
qed


subsection \<open>\<^verbatim>\<open>clean_data\<close>: the filter runs before the enrichment\<close>

lemma count_dvd_length:
  assumes "\<And>x. x \<in> set xs \<Longrightarrow> count_list xs x = k"
  shows "k dvd length xs"
proof -
  have "length xs = sum (count_list xs) (set xs)"
    by (simp add: sum_count_set)
  also have "\<dots> = sum (\<lambda>_. k) (set xs)"
    by (rule sum.cong) (simp_all add: assms)
  also have "\<dots> = card (set xs) * k" by simp
  finally show ?thesis by simp
qed

lemma remove_inconsistent_games_counts:
  assumes r: "remove_inconsistent_games f (Some s) = Inr g"
    and present: "\<And>r. r \<in> set (rows f) \<Longrightarrow> gameid r \<noteq> None"
  shows "\<And>x. x \<in> set (map gameid (rows g)) \<Longrightarrow>
           count_list (map gameid (rows g)) x = (if lower s = ''team'' then 2 else 10)"
    and "set (rows g) \<subseteq> set (rows f)"
proof -
  let ?n = "if lower s = ''team'' then 2 else 10 :: nat"
  let ?col = "map gameid (rows f)"
  let ?P = "\<lambda>k. k = None \<or> count_list ?col k = ?n"
  have g: "g = f\<lparr>rows := filter (\<lambda>r. ?P (gameid r)) (rows f)\<rparr>"
    using r unfolding remove_inconsistent_games_rows by simp
  then have rg: "rows g = filter (\<lambda>r. ?P (gameid r)) (rows f)" by simp
  show sub: "set (rows g) \<subseteq> set (rows f)" unfolding rg by auto
  have cnt: "\<And>k. count_list (map gameid (rows g)) k = (if ?P k then count_list ?col k else 0)"
    unfolding rg by (rule count_list_filter_key)
  fix x assume x: "x \<in> set (map gameid (rows g))"
  then obtain r where "r \<in> set (rows g)" and xr: "x = gameid r" by auto
  then have "r \<in> set (rows f)" and "?P (gameid r)" unfolding rg by auto
  then have nn: "x \<noteq> None" and px: "?P x" using present xr by auto
  from px nn have "count_list ?col x = ?n" by blast
  with px show "count_list (map gameid (rows g)) x = ?n" unfolding cnt by (simp only: if_True)
qed

lemma lower_team: "lower ''team'' = ''team''"
  by code_simp

lemma lower_player: "lower ''player'' \<noteq> ''team''"
  by code_simp

lemma subset_data_recognized:
  assumes "s = ''team'' \<or> s = ''player''"
  shows "\<exists>cols. subset_data (Some rs) (Some s) =
           Inr \<lparr> labels = cols,
                 rows = (if s = ''team'' then filter (\<lambda>r. position r = Some ''team'') rs
                         else filter (\<lambda>r. position r \<noteq> Some ''team'') rs) \<rparr>"
  using assms by (auto simp: subset_data_def columns_def lower_team lower_player)

lemma enrich_opponent_metrics_returns:
  assumes sg: "s = ''team'' \<and> gap = 1 \<or> s = ''player'' \<and> gap = 5"
    and len: "length (rows f) mod (2 * gap) = 0"
  shows "\<exists>out. enrich_opponent_metrics f (Some s) = Inr out"
proof -
  have ret: "\<exists>opp. get_opponent col (Some s) = Inr opp" if "length col = length (rows f)" for col :: "'x list"
    using get_opponent_returns[OF sg, of col] len that by simp
  obtain a where a: "get_opponent (map teamname (rows f)) (Some s) = Inr a"
    using ret[of "map teamname (rows f)"] by auto
  obtain b where b: "get_opponent (map teamid (rows f)) (Some s) = Inr b"
    using ret[of "map teamid (rows f)"] by auto
  obtain c where c: "get_opponent (map egpm (rows f)) (Some s) = Inr c"
    using ret[of "map egpm (rows f)"] by auto
  obtain d where d: "get_opponent (map playername (rows f)) (Some s) = Inr d"
    using ret[of "map playername (rows f)"] by auto
  obtain e where e: "get_opponent (map playerid (rows f)) (Some s) = Inr e"
    using ret[of "map playerid (rows f)"] by auto
  show ?thesis
  proof (cases "s = ''player''")
    case True
    note a' = a[unfolded True] and b' = b[unfolded True] and c' = c[unfolded True]
      and d' = d[unfolded True] and e' = e[unfolded True]
    show ?thesis unfolding True
      by (simp add: enrich_opponent_metrics_def Let_def a' b' c' d' e')
  next
    case False
    then show ?thesis
      by (simp add: enrich_opponent_metrics_def Let_def a b c)
  qed
qed

lemma clean_data_recognized:
  assumes f: "format_data_types to_datetime div60 oe_data = Inr d1"
    and s: "s = ''team'' \<or> s = ''player''"
  shows "\<exists>d5 d6 d7. subset_data d5 (Some s) = Inr d6 \<and>
           (\<forall>r\<in>set (rows d6). gameid r \<noteq> None) \<and>
           remove_inconsistent_games d6 (Some s) = Inr d7 \<and>
           clean_data to_datetime div60 oe_data (Some s) = enrich_opponent_metrics d7 (Some s)"
proof -
  define d3 where "d3 = drop_unknown_entities (remove_null_games d1)"
  have g3: "\<And>r. r \<in> set d3 \<Longrightarrow> gameid r \<noteq> None"
    by (simp add: d3_def drop_unknown_entities_def remove_null_games_def)
  define d4 where "d4 = (if s = ''player'' then sort_key player_key d3 else sort_key team_key d3)"
  have so: "sort_data d3 (Some s) = Some d4"
    using s by (auto simp: sort_data_def d4_def)
  have g4: "\<And>r. r \<in> set d4 \<Longrightarrow> gameid r \<noteq> None"
    using g3 by (simp add: d4_def split: if_splits)
  define d5 where "d5 = (if s = ''player''
                          then map (\<lambda>r. r\<lparr>teamid := fillna (teamid r) (teamname r)\<rparr>) d4 else d4)"
  have fi: "fill_null_team_ids (Some d4) (Some s) = Inr (Some d5)"
    by (simp add: fill_null_team_ids_def d5_def)
  have g5: "\<And>r. r \<in> set d5 \<Longrightarrow> gameid r \<noteq> None"
    using g4 by (auto simp: d5_def split: if_splits)
  from subset_data_recognized[OF s, of d5] obtain cols where
    su: "subset_data (Some d5) (Some s) =
           Inr \<lparr> labels = cols,
                 rows = (if s = ''team'' then filter (\<lambda>r. position r = Some ''team'') d5
                         else filter (\<lambda>r. position r \<noteq> Some ''team'') d5) \<rparr>"
    by blast
  define d6 where "d6 = \<lparr> labels = cols,
                 rows = (if s = ''team'' then filter (\<lambda>r. position r = Some ''team'') d5
                         else filter (\<lambda>r. position r \<noteq> Some ''team'') d5) \<rparr>"
  have su': "subset_data (Some d5) (Some s) = Inr d6" using su by (simp add: d6_def)
  have g6: "\<forall>r\<in>set (rows d6). gameid r \<noteq> None"
    using g5 by (simp add: d6_def)
  obtain d7 where re: "remove_inconsistent_games d6 (Some s) = Inr d7"
    unfolding remove_inconsistent_games_rows by blast
  have "clean_data to_datetime div60 oe_data (Some s) = enrich_opponent_metrics d7 (Some s)"
    using f so fi su' re by (simp add: clean_data_def Let_def d3_def)
  with su' g6 re show ?thesis by blast
qed


text \<open>
  Claim C1, as the code has it. In \<^verbatim>\<open>clean_data\<close> the Consistency Filter runs before the
  Opponent Enricher: whenever \<^verbatim>\<open>clean_data\<close> returns a table, that table is the
  enrichment of the table that \<^verbatim>\<open>remove_inconsistent_games\<close> returned for the output of
  \<^verbatim>\<open>subset_data\<close>; every game that the enricher sees has exactly the expected number
  of rows, the enrichment keeps the rows, and \<^verbatim>\<open>clean_data\<close> never raises
  \<^verbatim>\<open>IndexError\<close>.
\<close>

theorem clean_data_filters_before_enriching:
  "(clean_data to_datetime div60 oe_data split_on = Inr out \<longrightarrow>
      (\<exists>d5 d6 d7.
         subset_data d5 split_on = Inr d6 \<and>
         remove_inconsistent_games d6 split_on = Inr d7 \<and>
         enrich_opponent_metrics d7 split_on = Inr out \<and>
         (\<forall>x\<in>set (map gameid (rows d7)).
            count_list (map gameid (rows d7)) x = (if split_on = Some ''team'' then 2 else 10)) \<and>
         length (rows out) = length (rows d7)))
   \<and> clean_data to_datetime div60 oe_data split_on \<noteq> Inl IndexError"
proof -
  let ?n = "if split_on = Some ''team'' then 2 else 10 :: nat"
  have stages: "\<exists>d5 d6 d7 s gap.
         subset_data d5 split_on = Inr d6 \<and>
         remove_inconsistent_games d6 split_on = Inr d7 \<and>
         clean_data to_datetime div60 oe_data split_on = enrich_opponent_metrics d7 split_on \<and>
         (\<forall>x\<in>set (map gameid (rows d7)). count_list (map gameid (rows d7)) x = ?n) \<and>
         split_on = Some s \<and> (s = ''team'' \<and> gap = 1 \<or> s = ''player'' \<and> gap = 5) \<and>
         length (rows d7) mod (2 * gap) = 0"
    if ne: "clean_data to_datetime div60 oe_data split_on \<noteq> Inl ValueError"
      and na: "clean_data to_datetime div60 oe_data split_on \<noteq> Inl AttributeError"
  proof -
    have "\<not> (split_on \<noteq> Some ''team'' \<and> split_on \<noteq> Some ''player'')"
    proof
      assume "split_on \<noteq> Some ''team'' \<and> split_on \<noteq> Some ''player''"
      then have "clean_data to_datetime div60 oe_data split_on = Inl ValueError \<or>
                 clean_data to_datetime div60 oe_data split_on = Inl AttributeError"
        by (subst (1 2) clean_data_unrecognized) simp_all
      with ne na show False by simp
    qed
    then have k: "split_on = Some ''team'' \<or> split_on = Some ''player''" by simp
    define s where "s = the split_on"
    have s: "split_on = Some s" and tp: "s = ''team'' \<or> s = ''player''"
      using k by (auto simp: s_def)
    obtain d1 where f: "format_data_types to_datetime div60 oe_data = Inr d1"
    proof (cases "format_data_types to_datetime div60 oe_data")
      case (Inl e)
      then have "e = ValueError \<or> e = AttributeError" by (rule format_data_types_Inl)
      moreover from Inl have "clean_data to_datetime div60 oe_data split_on = Inl e"
        by (simp add: clean_data_def)
      ultimately show ?thesis using ne na by auto
    next
      case (Inr d1) then show ?thesis by (rule that)
    qed
    from clean_data_recognized[OF f tp] obtain d5 d6 d7 where
      su: "subset_data d5 (Some s) = Inr d6" and
      g6: "\<forall>r\<in>set (rows d6). gameid r \<noteq> None" and
      re: "remove_inconsistent_games d6 (Some s) = Inr d7" and
      cd: "clean_data to_datetime div60 oe_data (Some s) = enrich_opponent_metrics d7 (Some s)"
      by blast
    have g6': "\<And>r. r \<in> set (rows d6) \<Longrightarrow> gameid r \<noteq> None" using g6 by simp
    have n: "(if lower s = ''team'' then 2 else 10 :: nat) = ?n"
    proof (cases "s = ''team''")
      case True then show ?thesis using s by (simp add: lower_team)
    next
      case False
      then have "s = ''player''" using tp by simp
      then show ?thesis using s by (simp add: lower_player)
    qed
    have cnt: "\<And>x. x \<in> set (map gameid (rows d7)) \<Longrightarrow> count_list (map gameid (rows d7)) x = ?n"
      using remove_inconsistent_games_counts(1)[OF re g6'] unfolding n .
    have dv: "?n dvd length (map gameid (rows d7))"
      using cnt by (rule count_dvd_length)
    define gap :: nat where "gap = (if s = ''team'' then 1 else 5)"
    have sg: "s = ''team'' \<and> gap = 1 \<or> s = ''player'' \<and> gap = 5"
      using tp by (cases "s = ''team''") (simp_all add: gap_def)
    have "2 * gap = ?n"
    proof (cases "s = ''team''")
      case True then show ?thesis using s by (simp add: gap_def)
    next
      case False
      then have "s = ''player''" using tp by simp
      then show ?thesis using s by (simp add: gap_def)
    qed
    with dv have m: "length (rows d7) mod (2 * gap) = 0" by simp
    have cnt': "\<forall>x\<in>set (map gameid (rows d7)). count_list (map gameid (rows d7)) x = ?n"
      using cnt by (rule ballI)
    show ?thesis
      apply (rule exI[of _ d5], rule exI[of _ d6], rule exI[of _ d7], rule exI[of _ s],
             rule exI[of _ gap])
      apply (intro conjI)
            apply (simp only: s su)
           apply (simp only: s re)
          apply (simp only: s cd)
         apply (rule cnt')
        apply (rule s)
       apply (rule sg)
      apply (rule m)
      done
  qed
  have a: "clean_data to_datetime div60 oe_data split_on = Inr out \<longrightarrow>
      (\<exists>d5 d6 d7.
         subset_data d5 split_on = Inr d6 \<and>
         remove_inconsistent_games d6 split_on = Inr d7 \<and>
         enrich_opponent_metrics d7 split_on = Inr out \<and>
         (\<forall>x\<in>set (map gameid (rows d7)). count_list (map gameid (rows d7)) x = ?n) \<and>
         length (rows out) = length (rows d7))"
  proof
    assume r: "clean_data to_datetime div60 oe_data split_on = Inr out"
    then have "clean_data to_datetime div60 oe_data split_on \<noteq> Inl ValueError"
      and "clean_data to_datetime div60 oe_data split_on \<noteq> Inl AttributeError" by simp_all
    from stages[OF this] obtain d5 d6 d7 s gap where st:
      "subset_data d5 split_on = Inr d6 \<and>
       remove_inconsistent_games d6 split_on = Inr d7 \<and>
       clean_data to_datetime div60 oe_data split_on = enrich_opponent_metrics d7 split_on \<and>
       (\<forall>x\<in>set (map gameid (rows d7)). count_list (map gameid (rows d7)) x = ?n) \<and>
       split_on = Some s \<and> (s = ''team'' \<and> gap = 1 \<or> s = ''player'' \<and> gap = 5) \<and>
       length (rows d7) mod (2 * gap) = 0"
      apply -
      apply (erule exE)+
      apply (rule that)
      apply assumption
      done
    from st have su: "subset_data d5 split_on = Inr d6" by (elim conjE)
    from st have re: "remove_inconsistent_games d6 split_on = Inr d7" by (elim conjE)
    from st have cd: "clean_data to_datetime div60 oe_data split_on = enrich_opponent_metrics d7 split_on"
      by (elim conjE)
    from st have cnt: "\<forall>x\<in>set (map gameid (rows d7)). count_list (map gameid (rows d7)) x = ?n"
      by (elim conjE)
    from cd r have en: "enrich_opponent_metrics d7 split_on = Inr out" by simp
    have len: "length (rows out) = length (rows d7)"
      by (rule enrich_opponent_metrics_Inr(5)[OF en])
    show "\<exists>d5 d6 d7.
         subset_data d5 split_on = Inr d6 \<and>
         remove_inconsistent_games d6 split_on = Inr d7 \<and>
         enrich_opponent_metrics d7 split_on = Inr out \<and>
         (\<forall>x\<in>set (map gameid (rows d7)). count_list (map gameid (rows d7)) x = ?n) \<and>
         length (rows out) = length (rows d7)"
      by (rule exI[of _ d5], rule exI[of _ d6], rule exI[of _ d7]) (intro conjI su re en cnt len)
  qed
  have b: "clean_data to_datetime div60 oe_data split_on \<noteq> Inl IndexError"
  proof
    assume ie: "clean_data to_datetime div60 oe_data split_on = Inl IndexError"
    then have "clean_data to_datetime div60 oe_data split_on \<noteq> Inl ValueError"
      and "clean_data to_datetime div60 oe_data split_on \<noteq> Inl AttributeError" by simp_all
    from stages[OF this] obtain d5 d6 d7 s gap where st:
      "subset_data d5 split_on = Inr d6 \<and>
       remove_inconsistent_games d6 split_on = Inr d7 \<and>
       clean_data to_datetime div60 oe_data split_on = enrich_opponent_metrics d7 split_on \<and>
       (\<forall>x\<in>set (map gameid (rows d7)). count_list (map gameid (rows d7)) x = ?n) \<and>
       split_on = Some s \<and> (s = ''team'' \<and> gap = 1 \<or> s = ''player'' \<and> gap = 5) \<and>
       length (rows d7) mod (2 * gap) = 0"
      apply -
      apply (erule exE)+
      apply (rule that)
      apply assumption
      done
    from st have cd: "clean_data to_datetime div60 oe_data split_on = enrich_opponent_metrics d7 split_on"
      by (elim conjE)
    from st have s: "split_on = Some s" by (elim conjE)
    from st have sg: "s = ''team'' \<and> gap = 1 \<or> s = ''player'' \<and> gap = 5" by (elim conjE)
    from st have m: "length (rows d7) mod (2 * gap) = 0" by (elim conjE)
    from enrich_opponent_metrics_returns[OF sg m] obtain res where
      "enrich_opponent_metrics d7 (Some s) = Inr res" by (elim exE)
    with cd s ie show False by simp
  qed
  from a b show ?thesis by (rule conjI)
qed

text \<open>
  A table with a one-row game: \<open>g2\<close> has only its Blue team row. (The player row keeps the
  playerid column textual; at team granularity \<^verbatim>\<open>subset_data\<close> drops it.)
\<close>

lemma clean_data_ragged_example:
  "clean_data (\<lambda>col. Some (map (map_option (\<lambda>s. if s = ''2023-01-10'' then 10 else 0)) col))
     (\<lambda>x::rat. x / 60)
     [\<lparr>date = Some ''2023-01-10'', gameid = Some ''g1'', side = Some ''Red'',
       position = Some ''team'', league = Some ''LCK'', playername = None, playerid = None,
       teamname = Some ''B'', teamid = Some ''idB'', egpm = 240, gamelength = 1800,
       others = ()\<rparr>,
      \<lparr>date = Some ''2023-01-10'', gameid = Some ''g1'', side = Some ''Blue'',
       position = Some ''team'', league = Some ''LCK'', playername = None, playerid = None,
       teamname = Some ''A'', teamid = Some ''idA'', egpm = 250, gamelength = 1800,
       others = ()\<rparr>,
      \<lparr>date = Some ''2023-01-10'', gameid = Some ''g2'', side = Some ''Blue'',
       position = Some ''team'', league = Some ''LCK'', playername = None, playerid = None,
       teamname = Some ''C'', teamid = Some ''idC'', egpm = 260, gamelength = 1500,
       others = ()\<rparr>,
      \<lparr>date = Some ''2023-01-10'', gameid = Some ''g1'', side = Some ''Blue'',
       position = Some ''top'', league = Some ''LCK'', playername = Some ''P1'', playerid = Some ''idP1'',
       teamname = Some ''A'', teamid = Some ''idA'', egpm = 50, gamelength = 1800,
       others = ()\<rparr>]
     (Some ''team'') =
   Inr \<lparr>labels = [''date'', ''gameid'', ''side'', ''league'', ''patch'', ''teamname'', ''teamid'',
         ''result'', ''kills'', ''deaths'', ''assists'', ''egpm'', ''gamelength'', ''ckpm'',
         ''team kpm'', ''firstblood'', ''dragons'', ''barons'', ''towers'', ''goldat15'',
         ''xpat15'', ''csat15'', ''golddiffat15'', ''xpdiffat15'', ''csdiffat15'',
         ''opponentteam'', ''opponentteamid'', ''opponent_egpm''],
        rows =
          [\<lparr>date = Some 10, gameid = Some ''g1'', side = Some ''Blue'',
            position = Some ''team'', league = Some ''LCK'', playername = None, playerid = None,
            teamname = Some ''A'', teamid = Some ''idA'', egpm = 250, gamelength = 30,
            others = (), opponentteam = Some ''B'', opponentteamid = Some ''idB'',
            opponent_egpm = 240, opponentname = None, opponentid = None\<rparr>,
           \<lparr>date = Some 10, gameid = Some ''g1'', side = Some ''Red'',
            position = Some ''team'', league = Some ''LCK'', playername = None, playerid = None,
            teamname = Some ''B'', teamid = Some ''idB'', egpm = 240, gamelength = 30,
            others = (), opponentteam = Some ''A'', opponentteamid = Some ''idA'',
            opponent_egpm = 250, opponentname = None, opponentid = None\<rparr>]\<rparr>"
  by code_simp

theorem clean_data_filters_before_enriching_witness:
  "clean_data (\<lambda>col. Some (map (map_option (\<lambda>s. if s = ''2023-01-10'' then 10 else 0)) col))
     (\<lambda>x::rat. x / 60)
     [\<lparr>date = Some ''2023-01-10'', gameid = Some ''g1'', side = Some ''Red'',
       position = Some ''team'', league = Some ''LCK'', playername = None, playerid = None,
       teamname = Some ''B'', teamid = Some ''idB'', egpm = 240, gamelength = 1800,
       others = ()\<rparr>,
      \<lparr>date = Some ''2023-01-10'', gameid = Some ''g1'', side = Some ''Blue'',
       position = Some ''team'', league = Some ''LCK'', playername = None, playerid = None,
       teamname = Some ''A'', teamid = Some ''idA'', egpm = 250, gamelength = 1800,
       others = ()\<rparr>,
      \<lparr>date = Some ''2023-01-10'', gameid = Some ''g2'', side = Some ''Blue'',
       position = Some ''team'', league = Some ''LCK'', playername = None, playerid = None,
       teamname = Some ''C'', teamid = Some ''idC'', egpm = 260, gamelength = 1500,
       others = ()\<rparr>,
      \<lparr>date = Some ''2023-01-10'', gameid = Some ''g1'', side = Some ''Blue'',
       position = Some ''top'', league = Some ''LCK'', playername = Some ''P1'', playerid = Some ''idP1'',
       teamname = Some ''A'', teamid = Some ''idA'', egpm = 50, gamelength = 1800,
       others = ()\<rparr>]
     (Some ''team'') \<noteq> Inl IndexError \<and>
   (\<exists>d5 d6 d7.
      subset_data d5 (Some ''team'') = Inr d6 \<and>
      remove_inconsistent_games d6 (Some ''team'') = Inr d7 \<and>
      enrich_opponent_metrics d7 (Some ''team'') =
        Inr \<lparr>labels = [''date'', ''gameid'', ''side'', ''league'', ''patch'', ''teamname'', ''teamid'',
         ''result'', ''kills'', ''deaths'', ''assists'', ''egpm'', ''gamelength'', ''ckpm'',
         ''team kpm'', ''firstblood'', ''dragons'', ''barons'', ''towers'', ''goldat15'',
         ''xpat15'', ''csat15'', ''golddiffat15'', ''xpdiffat15'', ''csdiffat15'',
         ''opponentteam'', ''opponentteamid'', ''opponent_egpm''],
        rows =
          [\<lparr>date = Some (10::int), gameid = Some ''g1'', side = Some ''Blue'',
            position = Some ''team'', league = Some ''LCK'', playername = None, playerid = None,
            teamname = Some ''A'', teamid = Some ''idA'', egpm = (250::rat), gamelength = (30::rat),
            others = (), opponentteam = Some ''B'', opponentteamid = Some ''idB'',
            opponent_egpm = (240::rat), opponentname = None, opponentid = None\<rparr>,
           \<lparr>date = Some (10::int), gameid = Some ''g1'', side = Some ''Red'',
            position = Some ''team'', league = Some ''LCK'', playername = None, playerid = None,
            teamname = Some ''B'', teamid = Some ''idB'', egpm = (240::rat), gamelength = (30::rat),
            others = (), opponentteam = Some ''A'', opponentteamid = Some ''idA'',
            opponent_egpm = (250::rat), opponentname = None, opponentid = None\<rparr>]\<rparr> \<and>
      length (rows d7) = 2)"
proof -
  let ?out = "\<lparr>labels = [''date'', ''gameid'', ''side'', ''league'', ''patch'', ''teamname'', ''teamid'',
         ''result'', ''kills'', ''deaths'', ''assists'', ''egpm'', ''gamelength'', ''ckpm'',
         ''team kpm'', ''firstblood'', ''dragons'', ''barons'', ''towers'', ''goldat15'',
         ''xpat15'', ''csat15'', ''golddiffat15'', ''xpdiffat15'', ''csdiffat15'',
         ''opponentteam'', ''opponentteamid'', ''opponent_egpm''],
        rows =
          [\<lparr>date = Some (10::int), gameid = Some ''g1'', side = Some ''Blue'',
            position = Some ''team'', league = Some ''LCK'', playername = None, playerid = None,
            teamname = Some ''A'', teamid = Some ''idA'', egpm = (250::rat), gamelength = (30::rat),
            others = (), opponentteam = Some ''B'', opponentteamid = Some ''idB'',
            opponent_egpm = (240::rat), opponentname = None, opponentid = None\<rparr>,
           \<lparr>date = Some (10::int), gameid = Some ''g1'', side = Some ''Red'',
            position = Some ''team'', league = Some ''LCK'', playername = None, playerid = None,
            teamname = Some ''B'', teamid = Some ''idB'', egpm = (240::rat), gamelength = (30::rat),
            others = (), opponentteam = Some ''A'', opponentteamid = Some ''idA'',
            opponent_egpm = (250::rat), opponentname = None, opponentid = None\<rparr>]\<rparr>"
  note t = clean_data_filters_before_enriching[of
     "(\<lambda>col. Some (map (map_option (\<lambda>s. if s = ''2023-01-10'' then 10 else 0)) col))"
     "(\<lambda>x::rat. x / 60)"
     "[\<lparr>date = Some ''2023-01-10'', gameid = Some ''g1'', side = Some ''Red'',
       position = Some ''team'', league = Some ''LCK'', playername = None, playerid = None,
       teamname = Some ''B'', teamid = Some ''idB'', egpm = 240, gamelength = 1800,
       others = ()\<rparr>,
      \<lparr>date = Some ''2023-01-10'', gameid = Some ''g1'', side = Some ''Blue'',
       position = Some ''team'', league = Some ''LCK'', playername = None, playerid = None,
       teamname = Some ''A'', teamid = Some ''idA'', egpm = 250, gamelength = 1800,
       others = ()\<rparr>,
      \<lparr>date = Some ''2023-01-10'', gameid = Some ''g2'', side = Some ''Blue'',
       position = Some ''team'', league = Some ''LCK'', playername = None, playerid = None,
       teamname = Some ''C'', teamid = Some ''idC'', egpm = 260, gamelength = 1500,
       others = ()\<rparr>,
      \<lparr>date = Some ''2023-01-10'', gameid = Some ''g1'', side = Some ''Blue'',
       position = Some ''top'', league = Some ''LCK'', playername = Some ''P1'', playerid = Some ''idP1'',
       teamname = Some ''A'', teamid = Some ''idA'', egpm = 50, gamelength = 1800,
       others = ()\<rparr>]"
     "Some ''team''" ?out]
  have "\<exists>d5 d6 d7.
         subset_data d5 (Some ''team'') = Inr d6 \<and>
         remove_inconsistent_games d6 (Some ''team'') = Inr d7 \<and>
         enrich_opponent_metrics d7 (Some ''team'') = Inr ?out \<and>
         (\<forall>x\<in>set (map gameid (rows d7)).
            count_list (map gameid (rows d7)) x = (if Some ''team'' = Some ''team'' then 2 else 10)) \<and>
         length (rows ?out) = length (rows d7)"
    by (rule t[THEN conjunct1, THEN mp, OF clean_data_ragged_example])
  then have e: "\<exists>d5 d6 d7.
      subset_data d5 (Some ''team'') = Inr d6 \<and>
      remove_inconsistent_games d6 (Some ''team'') = Inr d7 \<and>
      enrich_opponent_metrics d7 (Some ''team'') = Inr ?out \<and>
      length (rows d7) = 2"
    apply (elim exE conjE)
    apply (intro exI conjI)
       apply assumption
      apply assumption
     apply assumption
    apply simp
    done
  from t[THEN conjunct2] e show ?thesis by (rule conjI)
qed

text \<open>
  The claim as written (filter after enrichment) fails on that table: enriching first reads
  past the end of the three team rows and raises \<^verbatim>\<open>IndexError\<close>, whereas
  \<^verbatim>\<open>clean_data\<close> drops the one-row game first and returns the two enriched rows of
  \<open>g1\<close>.
\<close>

theorem clean_data_order_counterexample:
  "clean_data_enrich_then_filter (\<lambda>col. Some (map (map_option (\<lambda>s. if s = ''2023-01-10'' then 10 else 0)) col))
     (\<lambda>x::rat. x / 60)
     [\<lparr>date = Some ''2023-01-10'', gameid = Some ''g1'', side = Some ''Red'',
       position = Some ''team'', league = Some ''LCK'', playername = None, playerid = None,
       teamname = Some ''B'', teamid = Some ''idB'', egpm = 240, gamelength = 1800,
       others = ()\<rparr>,
      \<lparr>date = Some ''2023-01-10'', gameid = Some ''g1'', side = Some ''Blue'',
       position = Some ''team'', league = Some ''LCK'', playername = None, playerid = None,
       teamname = Some ''A'', teamid = Some ''idA'', egpm = 250, gamelength = 1800,
       others = ()\<rparr>,
      \<lparr>date = Some ''2023-01-10'', gameid = Some ''g2'', side = Some ''Blue'',
       position = Some ''team'', league = Some ''LCK'', playername = None, playerid = None,
       teamname = Some ''C'', teamid = Some ''idC'', egpm = 260, gamelength = 1500,
       others = ()\<rparr>,
      \<lparr>date = Some ''2023-01-10'', gameid = Some ''g1'', side = Some ''Blue'',
       position = Some ''top'', league = Some ''LCK'', playername = Some ''P1'', playerid = Some ''idP1'',
       teamname = Some ''A'', teamid = Some ''idA'', egpm = 50, gamelength = 1800,
       others = ()\<rparr>]
     (Some ''team'') = Inl IndexError
   \<and>
   clean_data (\<lambda>col. Some (map (map_option (\<lambda>s. if s = ''2023-01-10'' then 10 else 0)) col))
     (\<lambda>x::rat. x / 60)
     [\<lparr>date = Some ''2023-01-10'', gameid = Some ''g1'', side = Some ''Red'',
       position = Some ''team'', league = Some ''LCK'', playername = None, playerid = None,
       teamname = Some ''B'', teamid = Some ''idB'', egpm = 240, gamelength = 1800,
       others = ()\<rparr>,
      \<lparr>date = Some ''2023-01-10'', gameid = Some ''g1'', side = Some ''Blue'',
       position = Some ''team'', league = Some ''LCK'', playername = None, playerid = None,
       teamname = Some ''A'', teamid = Some ''idA'', egpm = 250, gamelength = 1800,
       others = ()\<rparr>,
      \<lparr>date = Some ''2023-01-10'', gameid = Some ''g2'', side = Some ''Blue'',
       position = Some ''team'', league = Some ''LCK'', playername = None, playerid = None,
       teamname = Some ''C'', teamid = Some ''idC'', egpm = 260, gamelength = 1500,
       others = ()\<rparr>,
      \<lparr>date = Some ''2023-01-10'', gameid = Some ''g1'', side = Some ''Blue'',
       position = Some ''top'', league = Some ''LCK'', playername = Some ''P1'', playerid = Some ''idP1'',
       teamname = Some ''A'', teamid = Some ''idA'', egpm = 50, gamelength = 1800,
       others = ()\<rparr>]
     (Some ''team'') =
   Inr \<lparr>labels = [''date'', ''gameid'', ''side'', ''league'', ''patch'', ''teamname'', ''teamid'',
         ''result'', ''kills'', ''deaths'', ''assists'', ''egpm'', ''gamelength'', ''ckpm'',
         ''team kpm'', ''firstblood'', ''dragons'', ''barons'', ''towers'', ''goldat15'',
         ''xpat15'', ''csat15'', ''golddiffat15'', ''xpdiffat15'', ''csdiffat15'',
         ''opponentteam'', ''opponentteamid'', ''opponent_egpm''],
        rows =
          [\<lparr>date = Some 10, gameid = Some ''g1'', side = Some ''Blue'',
            position = Some ''team'', league = Some ''LCK'', playername = None, playerid = None,
            teamname = Some ''A'', teamid = Some ''idA'', egpm = 250, gamelength = 30,
            others = (), opponentteam = Some ''B'', opponentteamid = Some ''idB'',
            opponent_egpm = 240, opponentname = None, opponentid = None\<rparr>,
           \<lparr>date = Some 10, gameid = Some ''g1'', side = Some ''Red'',
            position = Some ''team'', league = Some ''LCK'', playername = None, playerid = None,
            teamname = Some ''B'', teamid = Some ''idB'', egpm = 240, gamelength = 30,
            others = (), opponentteam = Some ''A'', opponentteamid = Some ''idA'',
            opponent_egpm = 250, opponentname = None, opponentid = None\<rparr>]\<rparr>"
  by code_simp

end
